theory Spec2Isabelle
  imports Complex_Main "HOL-Library.Char_ord" "HOL-Library.List_Lexorder"
begin

section \<open>Python values and the operations the scripts apply to them\<close>

text \<open>
  The scripts exchange data as JSON lines, so every value they handle is what
  \<^verbatim>\<open>json.loads\<close> produces: \<^verbatim>\<open>None\<close>, a bool, an int, a str, a list or a dict with
  str keys. A dict is an association list in insertion order, as Python keeps it.
  A \<open>string\<close> is a sequence of code points below 256, one \<open>char\<close> each. Python floats
  are outside the model: no value of \<open>json\<close> stands for a number with a fraction or an
  exponent.
\<close>

datatype json =
    JNull
  | JBool bool
  | JInt int
  | JStr string
  | JArr "json list"
  | JObj "(string \<times> json) list"

text \<open>
  An exception is its class name (\<^verbatim>\<open>type(e).__name__\<close>) and its text (\<^verbatim>\<open>str(e)\<close>).
  The errors of a method that a value does not have and of a loop over a value
  that is not iterable carry the text of the interpreter, which
  \<^verbatim>\<open>process_single_case\<close> writes into its failure record. The texts of the other
  errors that the interpreter raises are left empty: the scripts only print them.
\<close>

datatype exn = Exn (etype: string) (emsg: string)

fun type_name :: "json \<Rightarrow> string" where
  "type_name JNull = ''NoneType''"
| "type_name (JBool b) = ''bool''"
| "type_name (JInt n) = ''int''"
| "type_name (JStr s) = ''str''"
| "type_name (JArr xs) = ''list''"
| "type_name (JObj ms) = ''dict''"

definition no_attribute :: "json \<Rightarrow> string \<Rightarrow> exn" where
  "no_attribute v name =
     Exn ''AttributeError''
       ([CHR 0x27] @ type_name v @ [CHR 0x27] @ '' object has no attribute '' @
        [CHR 0x27] @ name @ [CHR 0x27])"

definition not_iterable :: "json \<Rightarrow> exn" where
  "not_iterable v =
     Exn ''TypeError'' ([CHR 0x27] @ type_name v @ [CHR 0x27] @ '' object is not iterable'')"

abbreviation TypeError :: exn where "TypeError \<equiv> Exn ''TypeError'' ''''"
abbreviation KeyError :: exn where "KeyError \<equiv> Exn ''KeyError'' ''''"
abbreviation IndexError :: exn where "IndexError \<equiv> Exn ''IndexError'' ''''"
abbreviation JSONDecodeError :: exn where "JSONDecodeError \<equiv> Exn ''JSONDecodeError'' ''''"

text \<open>Sequencing of computations that may raise: the first exception ends the run.\<close>

definition bindE :: "exn + 'a \<Rightarrow> ('a \<Rightarrow> exn + 'b) \<Rightarrow> exn + 'b" where
  "bindE m f = (case m of Inl e \<Rightarrow> Inl e | Inr x \<Rightarrow> f x)"

subsection \<open>Strings\<close>

fun starts_with :: "string \<Rightarrow> string \<Rightarrow> bool" where
  "starts_with [] s = True"
| "starts_with (p # ps) [] = False"
| "starts_with (p # ps) (c # cs) = (p = c \<and> starts_with ps cs)"

text \<open>\<^verbatim>\<open>needle in haystack\<close> on two strings.\<close>

fun substring_in :: "string \<Rightarrow> string \<Rightarrow> bool" where
  "substring_in p [] = (p = [])"
| "substring_in p (c # cs) = (starts_with p (c # cs) \<or> substring_in p cs)"

text \<open>
  \<^verbatim>\<open>str.isspace\<close>, which is also the class \<^verbatim>\<open>\s\<close> of \<^verbatim>\<open>re\<close> on str patterns, and
  the class \<^verbatim>\<open>\d\<close>, on the code points below 256.
\<close>

definition is_space :: "char \<Rightarrow> bool" where
  "is_space c = (c \<in> set [CHR 0x09, CHR 0x0A, CHR 0x0B, CHR 0x0C, CHR 0x0D,
     CHR 0x1C, CHR 0x1D, CHR 0x1E, CHR 0x1F, CHR 0x20, CHR 0x85, CHR 0xA0])"

definition is_digit :: "char \<Rightarrow> bool" where
  "is_digit c = (c \<in> set ''0123456789'')"

definition strip :: "string \<Rightarrow> string" where
  "strip s = rev (dropWhile is_space (rev (dropWhile is_space s)))"

definition lower_char :: "char \<Rightarrow> char" where
  "lower_char c =
     (let n = (of_char c :: nat)
      in if (65 \<le> n \<and> n \<le> 90) \<or> (192 \<le> n \<and> n \<le> 222 \<and> n \<noteq> 215)
         then char_of (n + 32) else c)"

definition lower :: "string \<Rightarrow> string" where
  "lower s = map lower_char s"

subsection \<open>Dicts\<close>

text \<open>
  \<^verbatim>\<open>d[k] = v\<close> keeps the position of a key that is present and appends a new one;
  \<open>eq\<close> is the equality of keys.
\<close>

fun dict_set :: "('k \<Rightarrow> 'k \<Rightarrow> bool) \<Rightarrow> ('k \<times> 'v) list \<Rightarrow> 'k \<Rightarrow> 'v \<Rightarrow> ('k \<times> 'v) list" where
  "dict_set eq [] k v = [(k, v)]"
| "dict_set eq ((k', v') # d) k v =
     (if eq k' k then (k', v) # d else (k', v') # dict_set eq d k v)"

fun dict_get :: "('k \<Rightarrow> 'k \<Rightarrow> bool) \<Rightarrow> ('k \<times> 'v) list \<Rightarrow> 'k \<Rightarrow> 'v option" where
  "dict_get eq [] k = None"
| "dict_get eq ((k', v') # d) k = (if eq k' k then Some v' else dict_get eq d k)"

definition dict_del :: "('k \<times> 'v) list \<Rightarrow> 'k \<Rightarrow> ('k \<times> 'v) list" where
  "dict_del d k = filter (\<lambda>kv. fst kv \<noteq> k) d"

text \<open>The str-keyed dicts of JSON objects and of the parser's results.\<close>

abbreviation sset :: "(string \<times> 'v) list \<Rightarrow> string \<Rightarrow> 'v \<Rightarrow> (string \<times> 'v) list" where
  "sset \<equiv> dict_set (=)"

abbreviation sget :: "(string \<times> 'v) list \<Rightarrow> string \<Rightarrow> 'v option" where
  "sget \<equiv> dict_get (=)"

subsection \<open>Operators on values\<close>

text \<open>Truth value of a value, as \<^verbatim>\<open>if x\<close> and \<^verbatim>\<open>not x\<close> take it.\<close>

fun truthy :: "json \<Rightarrow> bool" where
  "truthy JNull = False"
| "truthy (JBool b) = b"
| "truthy (JInt n) = (n \<noteq> 0)"
| "truthy (JStr s) = (s \<noteq> [])"
| "truthy (JArr xs) = (xs \<noteq> [])"
| "truthy (JObj ms) = (ms \<noteq> [])"

text \<open>
  \<^verbatim>\<open>a == b\<close> on the values that can be keys of a dict: a bool equals the int 0 or 1.
\<close>

fun py_eq :: "json \<Rightarrow> json \<Rightarrow> bool" where
  "py_eq (JBool b) (JInt n) = (n = (if b then 1 else 0))"
| "py_eq (JInt n) (JBool b) = (n = (if b then 1 else 0))"
| "py_eq a b = (a = b)"

fun hashable :: "json \<Rightarrow> bool" where
  "hashable (JArr xs) = False"
| "hashable (JObj ms) = False"
| "hashable v = True"

text \<open>\<^verbatim>\<open>key in x\<close> for a str \<open>key\<close>.\<close>

fun py_in :: "string \<Rightarrow> json \<Rightarrow> exn + bool" where
  "py_in k (JObj ms) = Inr (sget ms k \<noteq> None)"
| "py_in k (JArr xs) = Inr (JStr k \<in> set xs)"
| "py_in k (JStr s) = Inr (substring_in k s)"
| "py_in k v = Inl TypeError"

text \<open>\<^verbatim>\<open>x[key]\<close> for a str \<open>key\<close>, and \<^verbatim>\<open>x[i]\<close> for an index \<open>i \<ge> 0\<close>.\<close>

fun py_item :: "json \<Rightarrow> string \<Rightarrow> exn + json" where
  "py_item (JObj ms) k = (case sget ms k of None \<Rightarrow> Inl KeyError | Some v \<Rightarrow> Inr v)"
| "py_item v k = Inl TypeError"

fun py_index :: "json \<Rightarrow> nat \<Rightarrow> exn + json" where
  "py_index (JArr xs) i = (if i < length xs then Inr (xs ! i) else Inl IndexError)"
| "py_index (JStr s) i = (if i < length s then Inr (JStr [s ! i]) else Inl IndexError)"
| "py_index (JObj ms) i = Inl KeyError"
| "py_index v i = Inl TypeError"

text \<open>\<^verbatim>\<open>x.get(key, default)\<close>, \<^verbatim>\<open>x.lower()\<close>, \<^verbatim>\<open>x.strip()\<close> and \<^verbatim>\<open>for y in x\<close>.\<close>

fun py_get :: "json \<Rightarrow> string \<Rightarrow> json \<Rightarrow> exn + json" where
  "py_get (JObj ms) k d = Inr (case sget ms k of None \<Rightarrow> d | Some v \<Rightarrow> v)"
| "py_get v k d = Inl (no_attribute v ''get'')"

fun py_lower :: "json \<Rightarrow> exn + string" where
  "py_lower (JStr s) = Inr (lower s)"
| "py_lower v = Inl (no_attribute v ''lower'')"

fun py_iter :: "json \<Rightarrow> exn + json list" where
  "py_iter (JArr xs) = Inr xs"
| "py_iter (JStr s) = Inr (map (\<lambda>c. JStr [c]) s)"
| "py_iter (JObj ms) = Inr (map (\<lambda>kv. JStr (fst kv)) ms)"
| "py_iter v = Inl (not_iterable v)"

text \<open>
  \<^verbatim>\<open>json.loads(x)\<close>: the decoder of str texts is a parameter \<open>loads\<close>, \<open>None\<close> where it
  raises \<^verbatim>\<open>JSONDecodeError\<close>; a value that is not a str is a \<^verbatim>\<open>TypeError\<close>.
\<close>

fun py_loads :: "(string \<Rightarrow> json option) \<Rightarrow> json \<Rightarrow> exn + json" where
  "py_loads loads (JStr s) = (case loads s of None \<Rightarrow> Inl JSONDecodeError | Some v \<Rightarrow> Inr v)"
| "py_loads loads v = Inl TypeError"

subsection \<open>\<^verbatim>\<open>str(x)\<close>\<close>

fun digits :: "nat \<Rightarrow> string" where
  "digits n =
     (if n < 10 then [char_of (48 + n)]
      else digits (n div 10) @ [char_of (48 + n mod 10)])"

declare digits.simps [simp del]

definition str_int :: "int \<Rightarrow> string" where
  "str_int n = (if n < 0 then CHR ''-'' # digits (nat (- n)) else digits (nat n))"

definition hex_digit :: "nat \<Rightarrow> char" where
  "hex_digit n = ''0123456789abcdef'' ! (n mod 16)"

text \<open>
  \<^verbatim>\<open>repr\<close> of a str: single quotes unless the text has a single quote and no double
  quote; the quote and the backslash escaped, and what is not printable written
  \<^verbatim>\<open>\t\<close>, \<^verbatim>\<open>\n\<close>, \<^verbatim>\<open>\r\<close> or \<^verbatim>\<open>\xNN\<close>.
\<close>

definition repr_char :: "char \<Rightarrow> char \<Rightarrow> string" where
  "repr_char q c =
     (let n = (of_char c :: nat)
      in if c = q \<or> c = CHR 0x5C then [CHR 0x5C, c]
         else if c = CHR 0x09 then [CHR 0x5C, CHR ''t'']
         else if c = CHR 0x0A then [CHR 0x5C, CHR ''n'']
         else if c = CHR 0x0D then [CHR 0x5C, CHR ''r'']
         else if n < 32 \<or> n = 127 \<or> (128 \<le> n \<and> n \<le> 160) \<or> n = 173
         then [CHR 0x5C, CHR ''x'', hex_digit (n div 16), hex_digit n]
         else [c])"

definition repr_str :: "string \<Rightarrow> string" where
  "repr_str s =
     (let q = (if CHR 0x27 \<in> set s \<and> CHR 0x22 \<notin> set s then CHR 0x22 else CHR 0x27)
      in [q] @ concat (map (repr_char q) s) @ [q])"

fun join :: "string \<Rightarrow> string list \<Rightarrow> string" where
  "join sep [] = []"
| "join sep [x] = x"
| "join sep (x # y # ys) = x @ sep @ join sep (y # ys)"

fun py_repr :: "json \<Rightarrow> string" where
  "py_repr JNull = ''None''"
| "py_repr (JBool b) = (if b then ''True'' else ''False'')"
| "py_repr (JInt n) = str_int n"
| "py_repr (JStr s) = repr_str s"
| "py_repr (JArr xs) = ''['' @ join '', '' (map py_repr xs) @ '']''"
| "py_repr (JObj ms) =
     ''{'' @ join '', '' (map (\<lambda>kv. repr_str (fst kv) @ '': '' @ py_repr (snd kv)) ms) @ ''}''"

fun py_str :: "json \<Rightarrow> string" where
  "py_str (JStr s) = s"
| "py_str v = py_repr v"

section \<open>The library behind the scripts\<close>

subsection \<open>Regular expressions of \<^verbatim>\<open>re\<close>\<close>

text \<open>
  The patterns of the scripts are built from literal text, the quantifiers \<^verbatim>\<open>*\<close>,
  \<^verbatim>\<open>+\<close> and \<^verbatim>\<open>*?\<close> on one character class, and named groups. All of them are
  compiled with \<^verbatim>\<open>re.DOTALL\<close>, or have no dot: \<open>AnyChar\<close> is any character.
  \<open>rx_match r s\<close> lists the ways \<open>r\<close> matches at the start of \<open>s\<close> in the order in
  which the backtracking matcher of \<^verbatim>\<open>re\<close> tries them (a greedy quantifier the longest
  run first, a lazy one the shortest first), each as the groups, the text matched and
  the text left. The match \<^verbatim>\<open>re\<close> reports is the first.
\<close>

datatype cls = AnyChar | Space | Digit

fun in_cls :: "cls \<Rightarrow> char \<Rightarrow> bool" where
  "in_cls AnyChar c = True"
| "in_cls Space c = is_space c"
| "in_cls Digit c = is_digit c"

datatype rx =
    Lit string
  | Star cls
  | Plus cls
  | LazyStar cls
  | Group string rx
  | Cat rx rx

type_synonym rx_result = "(string \<times> string) list \<times> string \<times> string"

fun greedy_runs :: "cls \<Rightarrow> string \<Rightarrow> (string \<times> string) list" where
  "greedy_runs k [] = [([], [])]"
| "greedy_runs k (c # cs) =
     (if in_cls k c
      then map (\<lambda>tr. (c # fst tr, snd tr)) (greedy_runs k cs) @ [([], c # cs)]
      else [([], c # cs)])"

fun lazy_runs :: "cls \<Rightarrow> string \<Rightarrow> (string \<times> string) list" where
  "lazy_runs k [] = [([], [])]"
| "lazy_runs k (c # cs) =
     ([], c # cs) #
     (if in_cls k c then map (\<lambda>tr. (c # fst tr, snd tr)) (lazy_runs k cs) else [])"

fun rx_match :: "rx \<Rightarrow> string \<Rightarrow> rx_result list" where
  "rx_match (Lit l) s = (if starts_with l s then [([], l, drop (length l) s)] else [])"
| "rx_match (Star k) s = map (\<lambda>tr. ([], fst tr, snd tr)) (greedy_runs k s)"
| "rx_match (Plus k) s =
     map (\<lambda>tr. ([], fst tr, snd tr)) (filter (\<lambda>tr. fst tr \<noteq> []) (greedy_runs k s))"
| "rx_match (LazyStar k) s = map (\<lambda>tr. ([], fst tr, snd tr)) (lazy_runs k s)"
| "rx_match (Group name r) s =
     map (\<lambda>m. (fst m @ [(name, fst (snd m))], snd m)) (rx_match r s)"
| "rx_match (Cat a b) s =
     concat (map (\<lambda>m1.
       map (\<lambda>m2. (fst m1 @ fst m2, fst (snd m1) @ fst (snd m2), snd (snd m2)))
         (rx_match b (snd (snd m1))))
       (rx_match a s))"

definition seq :: "rx list \<Rightarrow> rx" where
  "seq rs = foldr Cat rs (Lit [])"

text \<open>\<^verbatim>\<open>pattern.search(s)\<close>: the first match at the leftmost start that has one.\<close>

fun rx_search :: "rx \<Rightarrow> string \<Rightarrow> rx_result option" where
  "rx_search r [] = (case rx_match r [] of [] \<Rightarrow> None | m # ms \<Rightarrow> Some m)"
| "rx_search r (c # cs) =
     (case rx_match r (c # cs) of [] \<Rightarrow> rx_search r cs | m # ms \<Rightarrow> Some m)"

text \<open>
  \<^verbatim>\<open>pattern.finditer(s)\<close>: the matches from left to right, each search starting
  where the last match ended. A match of \<open>n\<close> characters at the head of \<open>c # cs\<close>
  leaves \<open>drop (n - 1) cs\<close>. The patterns of the scripts start with literal text, so
  no match is empty; an empty one would move the scan on by one character.
\<close>

fun rx_finditer :: "rx \<Rightarrow> string \<Rightarrow> rx_result list" where
  "rx_finditer r [] = (case rx_match r [] of [] \<Rightarrow> [] | m # ms \<Rightarrow> [m])"
| "rx_finditer r (c # cs) =
     (case rx_match r (c # cs) of
        [] \<Rightarrow> rx_finditer r cs
      | m # ms \<Rightarrow> m # rx_finditer r (drop (length (fst (snd m)) - 1) cs))"

definition group :: "rx_result \<Rightarrow> string \<Rightarrow> string" where
  "group m name = (case map_of (fst m) name of None \<Rightarrow> [] | Some t \<Rightarrow> t)"

definition group0 :: "rx_result \<Rightarrow> string" where
  "group0 m = fst (snd m)"

subsection \<open>A decoder for \<^verbatim>\<open>json.loads\<close>\<close>

text \<open>
  The functions of the scripts take the decoder as the parameter \<open>loads\<close>, so what is
  proved of them holds for every decoder. \<open>json_loads\<close> is the decoder used to run
  them on concrete texts: the JSON grammar as \<^verbatim>\<open>json.loads\<close> reads it (whitespace is
  space, tab, line feed and carriage return; a control character inside a string is an
  error; of two equal keys the later value stays, at the place of the first). It
  answers \<open>None\<close> for \<^verbatim>\<open>JSONDecodeError\<close>, and also on the texts whose value the
  model cannot hold: a number with a fraction or an exponent, \<^verbatim>\<open>NaN\<close>,
  \<^verbatim>\<open>Infinity\<close>, an escape \<^verbatim>\<open>\uXXXX\<close> of a code point above 255.
\<close>

datatype token = TLBrace | TRBrace | TLBrack | TRBrack | TColon | TComma | TValue json

datatype lexer = LStart | LStr string | LEsc string | LUni string string | LNum string | LWord string

definition hex_value :: "char \<Rightarrow> nat option" where
  "hex_value c =
     (let n = (of_char c :: nat)
      in if 48 \<le> n \<and> n \<le> 57 then Some (n - 48)
         else if 97 \<le> n \<and> n \<le> 102 then Some (n - 87)
         else if 65 \<le> n \<and> n \<le> 70 then Some (n - 55)
         else None)"

definition is_letter :: "char \<Rightarrow> bool" where
  "is_letter c = (let n = (of_char c :: nat) in (65 \<le> n \<and> n \<le> 90) \<or> (97 \<le> n \<and> n \<le> 122))"

definition digit_value :: "char \<Rightarrow> nat" where
  "digit_value c = of_char c - 48"

text \<open>The int of a literal \<^verbatim>\<open>-?(0|[1-9]\d*)\<close>.\<close>

definition int_literal :: "string \<Rightarrow> int option" where
  "int_literal s =
     (let neg = (s \<noteq> [] \<and> hd s = CHR ''-'');
          ds = (if neg then tl s else s);
          n = foldl (\<lambda>a c. 10 * a + digit_value c) 0 ds
      in if ds = [] \<or> \<not> list_all is_digit ds \<or> (hd ds = CHR ''0'' \<and> length ds > 1) then None
         else Some (if neg then - int n else int n))"

definition word_literal :: "string \<Rightarrow> json option" where
  "word_literal w =
     (if w = ''true'' then Some (JBool True)
      else if w = ''false'' then Some (JBool False)
      else if w = ''null'' then Some JNull
      else None)"

definition escape_char :: "char \<Rightarrow> char option" where
  "escape_char c =
     (if c = CHR 0x22 \<or> c = CHR 0x5C \<or> c = CHR ''/'' then Some c
      else if c = CHR ''b'' then Some (CHR 0x08)
      else if c = CHR ''f'' then Some (CHR 0x0C)
      else if c = CHR ''n'' then Some (CHR 0x0A)
      else if c = CHR ''r'' then Some (CHR 0x0D)
      else if c = CHR ''t'' then Some (CHR 0x09)
      else None)"

text \<open>
  The lexer reads one character at a time: \<open>lex_char\<close> gives the next state and the
  tokens that the character completes, \<open>lex_end\<close> the tokens due at the end of the
  text. The character that ends a number or a word is read again from \<open>LStart\<close>.
\<close>

definition start_char :: "char \<Rightarrow> (lexer \<times> token list) option" where
  "start_char c =
     (if c \<in> set [CHR 0x20, CHR 0x09, CHR 0x0A, CHR 0x0D] then Some (LStart, [])
      else if c = CHR ''{'' then Some (LStart, [TLBrace])
      else if c = CHR ''}'' then Some (LStart, [TRBrace])
      else if c = CHR ''['' then Some (LStart, [TLBrack])
      else if c = CHR '']'' then Some (LStart, [TRBrack])
      else if c = CHR '':'' then Some (LStart, [TColon])
      else if c = CHR '','' then Some (LStart, [TComma])
      else if c = CHR 0x22 then Some (LStr [], [])
      else if c = CHR ''-'' \<or> is_digit c then Some (LNum [c], [])
      else if is_letter c then Some (LWord [c], [])
      else None)"

definition then_start :: "json option \<Rightarrow> char \<Rightarrow> (lexer \<times> token list) option" where
  "then_start v c =
     (case v of
        None \<Rightarrow> None
      | Some x \<Rightarrow> (case start_char c of None \<Rightarrow> None | Some (st, ts) \<Rightarrow> Some (st, TValue x # ts)))"

fun lex_char :: "lexer \<Rightarrow> char \<Rightarrow> (lexer \<times> token list) option" where
  "lex_char LStart c = start_char c"
| "lex_char (LStr acc) c =
     (if c = CHR 0x22 then Some (LStart, [TValue (JStr acc)])
      else if c = CHR 0x5C then Some (LEsc acc, [])
      else if (of_char c :: nat) < 32 then None
      else Some (LStr (acc @ [c]), []))"
| "lex_char (LEsc acc) c =
     (if c = CHR ''u'' then Some (LUni acc [], [])
      else (case escape_char c of None \<Rightarrow> None | Some e \<Rightarrow> Some (LStr (acc @ [e]), [])))"
| "lex_char (LUni acc hs) c =
     (case hex_value c of
        None \<Rightarrow> None
      | Some h \<Rightarrow>
          (if length hs < 3 then Some (LUni acc (hs @ [c]), [])
           else (let n = foldl (\<lambda>a x. 16 * a + (case hex_value x of None \<Rightarrow> 0 | Some v \<Rightarrow> v)) 0 (hs @ [c])
                 in if n < 256 then Some (LStr (acc @ [char_of n]), []) else None)))"
| "lex_char (LNum acc) c =
     (if is_digit c then Some (LNum (acc @ [c]), [])
      else then_start (map_option JInt (int_literal acc)) c)"
| "lex_char (LWord acc) c =
     (if is_letter c then Some (LWord (acc @ [c]), [])
      else then_start (word_literal acc) c)"

fun lex_end :: "lexer \<Rightarrow> token list option" where
  "lex_end LStart = Some []"
| "lex_end (LNum acc) = map_option (\<lambda>n. [TValue (JInt n)]) (int_literal acc)"
| "lex_end (LWord acc) = map_option (\<lambda>v. [TValue v]) (word_literal acc)"
| "lex_end st = None"

fun lex :: "lexer \<Rightarrow> string \<Rightarrow> token list option" where
  "lex st [] = lex_end st"
| "lex st (c # cs) =
     (case lex_char st c of
        None \<Rightarrow> None
      | Some (st', ts) \<Rightarrow> map_option (\<lambda>rest. ts @ rest) (lex st' cs))"

text \<open>
  The parser is a pushdown automaton over the tokens: the stack holds the containers
  that are open, \<open>FKey\<close> an object whose next value belongs to the key read.
\<close>

datatype frame = FArr "json list" | FObj "(string \<times> json) list" | FKey "(string \<times> json) list" string

datatype phase = PValue | PFirstElem | PFirstKey | PKey | PColon | PAfter | PDone json

fun complete :: "json \<Rightarrow> frame list \<Rightarrow> (phase \<times> frame list) option" where
  "complete v [] = Some (PDone v, [])"
| "complete v (FArr xs # st) = Some (PAfter, FArr (xs @ [v]) # st)"
| "complete v (FKey ms k # st) = Some (PAfter, FObj (sset ms k v) # st)"
| "complete v (FObj ms # st) = None"

fun open_value :: "token \<Rightarrow> frame list \<Rightarrow> (phase \<times> frame list) option" where
  "open_value (TValue v) st = complete v st"
| "open_value TLBrack st = Some (PFirstElem, FArr [] # st)"
| "open_value TLBrace st = Some (PFirstKey, FObj [] # st)"
| "open_value t st = None"

fun close_array :: "frame list \<Rightarrow> (phase \<times> frame list) option" where
  "close_array (FArr xs # st) = complete (JArr xs) st"
| "close_array st = None"

fun close_object :: "frame list \<Rightarrow> (phase \<times> frame list) option" where
  "close_object (FObj ms # st) = complete (JObj ms) st"
| "close_object st = None"

fun read_key :: "token \<Rightarrow> frame list \<Rightarrow> (phase \<times> frame list) option" where
  "read_key (TValue (JStr k)) (FObj ms # st) = Some (PColon, FKey ms k # st)"
| "read_key t st = None"

fun next_item :: "frame list \<Rightarrow> (phase \<times> frame list) option" where
  "next_item (FArr xs # st) = Some (PValue, FArr xs # st)"
| "next_item (FObj ms # st) = Some (PKey, FObj ms # st)"
| "next_item st = None"

definition step :: "phase \<Rightarrow> frame list \<Rightarrow> token \<Rightarrow> (phase \<times> frame list) option" where
  "step ph st t =
     (case ph of
        PValue \<Rightarrow> open_value t st
      | PFirstElem \<Rightarrow> (if t = TRBrack then close_array st else open_value t st)
      | PFirstKey \<Rightarrow> (if t = TRBrace then close_object st else read_key t st)
      | PKey \<Rightarrow> read_key t st
      | PColon \<Rightarrow> (if t = TColon then Some (PValue, st) else None)
      | PAfter \<Rightarrow>
          (if t = TComma then next_item st
           else if t = TRBrack then close_array st
           else if t = TRBrace then close_object st
           else None)
      | PDone v \<Rightarrow> None)"

fun parse :: "phase \<Rightarrow> frame list \<Rightarrow> token list \<Rightarrow> json option" where
  "parse (PDone v) st [] = Some v"
| "parse ph st [] = None"
| "parse ph st (t # ts) =
     (case step ph st t of None \<Rightarrow> None | Some (ph', st') \<Rightarrow> parse ph' st' ts)"

definition json_loads :: "string \<Rightarrow> json option" where
  "json_loads s = (case lex LStart s of None \<Rightarrow> None | Some ts \<Rightarrow> parse PValue [] ts)"

subsection \<open>An encoder for \<^verbatim>\<open>json.dumps\<close>\<close>

text \<open>
  \<open>json_dumps\<close> is \<^verbatim>\<open>json.dumps\<close> with \<^verbatim>\<open>ensure_ascii=False\<close> and the default
  separators, on the values of the model. \<open>write_line\<close> is the write of the line of
  such a value to a file opened with the encoding UTF-8: it never raises, every code
  point below 256 having an encoding.
\<close>

definition dumps_char :: "char \<Rightarrow> string" where
  "dumps_char c =
     (let n = (of_char c :: nat)
      in if c = CHR 0x22 then [CHR 0x5C, CHR 0x22]
         else if c = CHR 0x5C then [CHR 0x5C, CHR 0x5C]
         else if c = CHR 0x0A then [CHR 0x5C, CHR ''n'']
         else if c = CHR 0x0D then [CHR 0x5C, CHR ''r'']
         else if c = CHR 0x09 then [CHR 0x5C, CHR ''t'']
         else if c = CHR 0x08 then [CHR 0x5C, CHR ''b'']
         else if c = CHR 0x0C then [CHR 0x5C, CHR ''f'']
         else if n < 32 then [CHR 0x5C, CHR ''u'', CHR ''0'', CHR ''0'', hex_digit (n div 16), hex_digit n]
         else [c])"

definition dumps_str :: "string \<Rightarrow> string" where
  "dumps_str s = [CHR 0x22] @ concat (map dumps_char s) @ [CHR 0x22]"

fun json_dumps :: "json \<Rightarrow> string" where
  "json_dumps JNull = ''null''"
| "json_dumps (JBool b) = (if b then ''true'' else ''false'')"
| "json_dumps (JInt n) = str_int n"
| "json_dumps (JStr s) = dumps_str s"
| "json_dumps (JArr xs) = ''['' @ join '', '' (map json_dumps xs) @ '']''"
| "json_dumps (JObj ms) =
     ''{'' @ join '', '' (map (\<lambda>kv. dumps_str (fst kv) @ '': '' @ json_dumps (snd kv)) ms) @ ''}''"

definition write_line :: "json \<Rightarrow> exn + string" where
  "write_line result = Inr (json_dumps result @ [CHR 0x0A])"

section \<open>\<^verbatim>\<open>6_Error_results.py\<close>: the error classifier\<close>

text \<open>
  \<^verbatim>\<open>ErrorAnalyzer.classify_record\<close> first computes three booleans from the record and
  then walks an \<^verbatim>\<open>if\<close>/\<^verbatim>\<open>elif\<close> chain over them. \<open>record_flags\<close> is the first part
  (it raises where a field has the wrong type), \<open>format_of\<close> the chain.
\<close>

record flags =
  is_fallback :: bool
  is_raw_valid_json :: bool
  has_clasificaciones :: bool

definition has_items :: "json \<Rightarrow> exn + bool" where
  "has_items parsed_raw =
     bindE (py_in ''clasificaciones'' parsed_raw) (\<lambda>present.
       if present
       then bindE (py_item parsed_raw ''clasificaciones'') (\<lambda>items. Inr (truthy items))
       else Inr False)"

definition record_flags :: "(string \<Rightarrow> json option) \<Rightarrow> json \<Rightarrow> exn + flags" where
  "record_flags loads record =
     bindE (py_get record ''razonamiento_modelo'' (JStr [])) (\<lambda>razonamiento.
     bindE (py_get record ''raw_response'' (JStr [])) (\<lambda>raw_response.
     bindE (py_lower razonamiento) (\<lambda>lowered.
       let fb = substring_in ''fallback'' lowered
       in if truthy raw_response
          then (case py_loads loads raw_response of
                  Inl e \<Rightarrow>
                    if etype e = ''JSONDecodeError''
                    then Inr \<lparr>is_fallback = fb, is_raw_valid_json = False, has_clasificaciones = False\<rparr>
                    else Inl e
                | Inr parsed_raw \<Rightarrow>
                    bindE (has_items parsed_raw) (\<lambda>has.
                      Inr \<lparr>is_fallback = fb, is_raw_valid_json = True, has_clasificaciones = has\<rparr>))
          else Inr \<lparr>is_fallback = fb, is_raw_valid_json = False, has_clasificaciones = False\<rparr>)))"

definition format_of :: "flags \<Rightarrow> string" where
  "format_of f =
     (if \<not> is_fallback f \<and> is_raw_valid_json f \<and> has_clasificaciones f
      then ''Formato A: Perfecto''
      else if is_fallback f \<and> is_raw_valid_json f \<and> has_clasificaciones f
      then ''Formato B: Fallback Recuperable''
      else if is_fallback f \<and> \<not> is_raw_valid_json f
      then ''Formato C: Fallback Truncado''
      else if \<not> is_fallback f \<and> (\<not> is_raw_valid_json f \<or> \<not> has_clasificaciones f)
      then ''Formato D: Inconsistente''
      else ''Formato E: Otro'')"

definition classify_record :: "(string \<Rightarrow> json option) \<Rightarrow> json \<Rightarrow> exn + string" where
  "classify_record loads record = bindE (record_flags loads record) (\<lambda>f. Inr (format_of f))"

section \<open>\<^verbatim>\<open>5_lotes_processor.py\<close>: the consolidator\<close>

subsection \<open>\<^verbatim>\<open>find_batch_files\<close>\<close>

text \<open>
  The directory of batch files is the list of its regular files, each a name and its
  lines, in the order in which the file system lists them. \<open>glob_match\<close> is the
  matching of \<^verbatim>\<open>glob\<close> for the patterns used, in which \<^verbatim>\<open>*\<close> is the only wildcard
  (case matters, as on POSIX).
\<close>

type_synonym batch_file = "string \<times> string list"

fun glob_match :: "string \<Rightarrow> string \<Rightarrow> bool" where
  "glob_match [] [] = True"
| "glob_match [] (c # cs) = False"
| "glob_match (p # ps) [] = (p = CHR ''*'' \<and> glob_match ps [])"
| "glob_match (p # ps) (c # cs) =
     (if p = CHR ''*'' then glob_match ps (c # cs) \<or> glob_match (p # ps) cs
      else p = c \<and> glob_match ps cs)"

definition glob :: "batch_file list \<Rightarrow> string \<Rightarrow> batch_file list" where
  "glob dir pattern = filter (\<lambda>f. glob_match pattern (fst f)) dir"

definition patterns :: "string list" where
  "patterns = [''resultados_lote_*.jsonl'', ''resultados_*_lote_*.jsonl'',
     ''lote_*.jsonl'', ''batch_*.jsonl'']"

text \<open>The loop over the patterns, with its \<^verbatim>\<open>break\<close> after the first pattern that finds files.\<close>

fun scan_patterns :: "batch_file list \<Rightarrow> batch_file list \<Rightarrow> string list \<Rightarrow> batch_file list" where
  "scan_patterns dir batch_files [] = batch_files"
| "scan_patterns dir batch_files (pattern # rest) =
     (let found_files = glob dir pattern
      in if found_files \<noteq> [] then batch_files @ found_files
         else scan_patterns dir (batch_files @ found_files) rest)"

definition find_batch_files :: "batch_file list \<Rightarrow> exn + batch_file list" where
  "find_batch_files dir =
     (let batch_files = scan_patterns dir [] patterns
      in if batch_files = [] then Inl (Exn ''FileNotFoundError'' ''No se encontraron archivos de lotes'')
         else Inr (sort_key fst batch_files))"

subsection \<open>\<^verbatim>\<open>load_batch_files\<close>\<close>

text \<open>\<^verbatim>\<open>record.pop(key)\<close> and \<^verbatim>\<open>record[key] = value\<close> on a value that passed \<^verbatim>\<open>key in record\<close>.\<close>

fun py_pop :: "json \<Rightarrow> string \<Rightarrow> exn + (json \<times> json)" where
  "py_pop (JObj ms) k =
     (case sget ms k of None \<Rightarrow> Inl KeyError | Some v \<Rightarrow> Inr (v, JObj (dict_del ms k)))"
| "py_pop (JArr xs) k = Inl TypeError"
| "py_pop v k = Inl (no_attribute v ''pop'')"

fun py_setitem :: "json \<Rightarrow> string \<Rightarrow> json \<Rightarrow> exn + json" where
  "py_setitem (JObj ms) k v = Inr (JObj (sset ms k v))"
| "py_setitem r k v = Inl TypeError"

text \<open>
  The normalisation of the identifier (the \<^verbatim>\<open>if\<close>/\<^verbatim>\<open>elif\<close> chain on \<^verbatim>\<open>id\<close>,
  \<^verbatim>\<open>case_id\<close>, \<^verbatim>\<open>id_observacion\<close>): the identifier, \<^verbatim>\<open>None\<close> when no key is there,
  and the record as the chain leaves it.
\<close>

definition normalize_id :: "json \<Rightarrow> exn + (json \<times> json)" where
  "normalize_id record =
     bindE (py_in ''id'' record) (\<lambda>has_id.
       if has_id then bindE (py_item record ''id'') (\<lambda>record_id. Inr (record_id, record))
       else bindE (py_in ''case_id'' record) (\<lambda>has_case_id.
         if has_case_id
         then bindE (py_pop record ''case_id'') (\<lambda>popped.
                bindE (py_setitem (snd popped) ''id'' (fst popped)) (\<lambda>record'.
                  Inr (fst popped, record')))
         else bindE (py_in ''id_observacion'' record) (\<lambda>has_obs.
           if has_obs
           then bindE (py_item record ''id_observacion'') (\<lambda>record_id.
                  bindE (py_setitem record ''id'' record_id) (\<lambda>record'.
                    Inr (record_id, record')))
           else Inr (JNull, record))))"

text \<open>
  The state of the load: the unified dict, whose keys are compared as Python compares
  them, and the three counters of the processor.
\<close>

record load_state =
  unified_data :: "(json \<times> json) list"
  json_decode_errors :: nat
  general_parse_errors :: nat
  skipped_no_id :: nat

definition initial_load_state :: load_state where
  "initial_load_state =
     \<lparr>unified_data = [], json_decode_errors = 0, general_parse_errors = 0, skipped_no_id = 0\<rparr>"

text \<open>
  The body of the loop over the lines of a file. Storing under a list or a dict as key
  is a \<^verbatim>\<open>TypeError\<close>, which the general handler counts.
\<close>

definition load_line :: "(string \<Rightarrow> json option) \<Rightarrow> load_state \<Rightarrow> string \<Rightarrow> load_state" where
  "load_line loads st line =
     (case loads (strip line) of
        None \<Rightarrow> st\<lparr>json_decode_errors := json_decode_errors st + 1\<rparr>
      | Some record \<Rightarrow>
          (case normalize_id record of
             Inl e \<Rightarrow> st\<lparr>general_parse_errors := general_parse_errors st + 1\<rparr>
           | Inr (record_id, record') \<Rightarrow>
               if \<not> truthy record_id then st\<lparr>skipped_no_id := skipped_no_id st + 1\<rparr>
               else if hashable record_id
               then st\<lparr>unified_data := dict_set py_eq (unified_data st) record_id record'\<rparr>
               else st\<lparr>general_parse_errors := general_parse_errors st + 1\<rparr>))"

definition load_file :: "(string \<Rightarrow> json option) \<Rightarrow> load_state \<Rightarrow> batch_file \<Rightarrow> load_state" where
  "load_file loads st batch_file = foldl (load_line loads) st (snd batch_file)"

definition load_batch_files :: "(string \<Rightarrow> json option) \<Rightarrow> batch_file list \<Rightarrow> exn + load_state" where
  "load_batch_files loads dir =
     bindE (find_batch_files dir) (\<lambda>batch_files.
       Inr (foldl (load_file loads) initial_load_state batch_files))"

subsection \<open>\<^verbatim>\<open>parse_detailed_predictions\<close>\<close>

definition pattern_completo :: rx where
  \<open>pattern_completo = seq
     [Lit ''{'', Star Space, Lit ''"codigo":'', Star Space, Lit ''"'',
      Group ''code'' (Plus Digit), Lit ''",'', Star Space, Lit ''"justificacion":'',
      Star Space, Lit ''"'', Group ''just'' (LazyStar AnyChar), Lit ''"'', Star Space,
      Lit ''}'']\<close>

definition pattern_truncado :: rx where
  \<open>pattern_truncado = seq
     [Lit ''{'', Star Space, Lit ''"codigo":'', Star Space, Lit ''"'',
      Group ''code'' (Plus Digit), Lit ''",'', Star Space, Lit ''"justificacion":'',
      Star Space, Lit ''"'', Group ''just'' (Star AnyChar)]\<close>

text \<open>\<^verbatim>\<open>s.rfind('{')\<close>: the last position of the brace, \<open>None\<close> for \<^verbatim>\<open>-1\<close>.\<close>

fun rfind :: "char \<Rightarrow> string \<Rightarrow> nat option" where
  "rfind x [] = None"
| "rfind x (c # cs) =
     (case rfind x cs of
        Some i \<Rightarrow> Some (Suc i)
      | None \<Rightarrow> if c = x then Some 0 else None)"

text \<open>
  Tier 1, once the text is decoded and has the key \<^verbatim>\<open>clasificaciones\<close>: the loop
  over the items. The dict of details maps a code to the justification as it stands in
  the JSON, of any type.
\<close>

fun collect_items :: "(string \<times> json) list \<Rightarrow> json list \<Rightarrow> exn + (string \<times> json) list" where
  "collect_items predicted_details [] = Inr predicted_details"
| "collect_items predicted_details (item # items) =
     bindE (py_in ''codigo'' item) (\<lambda>has_codigo.
       if \<not> has_codigo then collect_items predicted_details items
       else bindE (py_in ''justificacion'' item) (\<lambda>has_just.
         if \<not> has_just then collect_items predicted_details items
         else bindE (py_item item ''justificacion'') (\<lambda>just.
              bindE (py_item item ''codigo'') (\<lambda>code.
                collect_items (sset predicted_details (py_str code) just) items))))"

definition tier1 :: "json \<Rightarrow> exn + (string \<times> json) list" where
  "tier1 parsed_json =
     bindE (py_get parsed_json ''clasificaciones'' (JArr [])) (\<lambda>clasificaciones.
     bindE (py_iter clasificaciones) (\<lambda>items. collect_items [] items))"

text \<open>Tier 2: every complete block found by \<^verbatim>\<open>pattern_completo.finditer\<close>.\<close>

definition tier2 :: "(string \<times> json) list \<Rightarrow> string \<Rightarrow> (string \<times> json) list" where
  "tier2 predicted_details raw_response =
     foldl (\<lambda>d m. sset d (group m ''code'') (JStr (group m ''just'')))
       predicted_details (rx_finditer pattern_completo raw_response)"

text \<open>Tier 3: the truncated block at the last opening brace.\<close>

definition tier3 :: "(string \<times> json) list \<Rightarrow> string \<Rightarrow> (string \<times> json) list" where
  "tier3 predicted_details raw_response =
     (case rfind (CHR ''{'') raw_response of
        None \<Rightarrow> predicted_details
      | Some last_brace_pos \<Rightarrow>
          (case rx_search pattern_truncado (drop last_brace_pos raw_response) of
             None \<Rightarrow> predicted_details
           | Some match_truncado \<Rightarrow>
               (let code = group match_truncado ''code''
                in if sget predicted_details code = None
                   then sset predicted_details code
                          (JStr (group match_truncado ''just'' @ '' [TRUNCADO]''))
                   else predicted_details)))"

definition parse_detailed_predictions ::
  "(string \<Rightarrow> json option) \<Rightarrow> json \<Rightarrow> exn + (string \<times> json) list" where
  "parse_detailed_predictions loads raw_response =
     (if \<not> truthy raw_response then Inr []
      else (case py_loads loads raw_response of
              Inl e \<Rightarrow>
                if etype e = ''JSONDecodeError''
                then Inr (tier3 (tier2 [] (py_str raw_response)) (py_str raw_response))
                else Inl e
            | Inr parsed_json \<Rightarrow>
                bindE (py_in ''clasificaciones'' parsed_json) (\<lambda>present.
                  if present then tier1 parsed_json
                  else Inr (tier3 (tier2 [] (py_str raw_response)) (py_str raw_response)))))"

subsection \<open>\<^verbatim>\<open>validate_consistency\<close> and \<^verbatim>\<open>create_unnested_format\<close>\<close>

text \<open>
  The report of \<^verbatim>\<open>validate_consistency\<close>, which is only printed: nothing when the two
  counts agree, else the identifiers missing from the batches and the extra ones.
\<close>

definition has_key :: "(json \<times> json) list \<Rightarrow> json \<Rightarrow> bool" where
  "has_key d k = (dict_get py_eq d k \<noteq> None)"

definition validate_consistency ::
  "(json \<times> json) list \<Rightarrow> (json \<times> json) list \<Rightarrow> (json list \<times> json list) option" where
  "validate_consistency unified reference =
     (if length unified \<noteq> length reference
      then Some (filter (\<lambda>k. \<not> has_key unified k) (map fst reference),
                 filter (\<lambda>k. \<not> has_key reference k) (map fst unified))
      else None)"

text \<open>\<^verbatim>\<open>sorted(list(s))\<close> of a set of str built from the list \<open>xs\<close>.\<close>

definition sorted_set :: "string list \<Rightarrow> string list" where
  "sorted_set xs = sort (remdups xs)"

text \<open>
  The identifiers of the original records of a grouped case (mode \<^verbatim>\<open>complex\<close>), read
  from the third message of the reference record; the three exceptions the handler
  names give \<^verbatim>\<open>[None]\<close>, every other one leaves the function.
\<close>

definition crime_ids_of :: "(string \<Rightarrow> json option) \<Rightarrow> json \<Rightarrow> exn + json list" where
  "crime_ids_of loads ref_record =
     (case bindE (py_item ref_record ''messages'') (\<lambda>messages.
           bindE (py_index messages 2) (\<lambda>message.
           bindE (py_item message ''content'') (\<lambda>content.
           bindE (py_loads loads content) (\<lambda>assistant_content.
             py_get assistant_content ''ids_delito_originales'' (JArr []))))) of
        Inl e \<Rightarrow>
          if etype e \<in> set [''JSONDecodeError'', ''KeyError'', ''IndexError'']
          then Inr [JNull] else Inl e
      | Inr crime_ids \<Rightarrow> if \<not> truthy crime_ids then Inr [JNull] else py_iter crime_ids)"

definition make_row :: "json \<Rightarrow> json \<Rightarrow> json \<Rightarrow> (string \<times> json) list \<Rightarrow> exn + json" where
  "make_row crime_id obs_id unified_record predicted_details =
     bindE (py_get unified_record ''observacion'' JNull) (\<lambda>observacion.
     bindE (py_get unified_record ''expected_codes'' (JArr [])) (\<lambda>expected_codes.
     bindE (py_get unified_record ''predicted_codes'' (JArr [])) (\<lambda>predicted_codes.
     bindE (py_get unified_record ''razonamiento_modelo'' JNull) (\<lambda>razonamiento.
     bindE (py_get unified_record ''timestamp'' JNull) (\<lambda>timestamp.
     bindE (py_get unified_record ''error'' (JBool False)) (\<lambda>processing_error.
       Inr (JObj
         [(''id_delito_ia'', crime_id),
          (''id_observacion'', obs_id),
          (''observacion'', observacion),
          (''expected_codes_obs'', expected_codes),
          (''predicted_codes_obs'', predicted_codes),
          (''razonamiento_general_modelo'', razonamiento),
          (''predicciones_detalladas_modelo'', JObj predicted_details),
          (''timestamp'', timestamp),
          (''processing_error'', processing_error)])))))))"

fun make_rows :: "json list \<Rightarrow> json \<Rightarrow> json \<Rightarrow> (string \<times> json) list \<Rightarrow> exn + json list" where
  "make_rows [] obs_id unified_record predicted_details = Inr []"
| "make_rows (crime_id # crime_ids) obs_id unified_record predicted_details =
     bindE (make_row crime_id obs_id unified_record predicted_details) (\<lambda>row.
     bindE (make_rows crime_ids obs_id unified_record predicted_details) (\<lambda>rows.
       Inr (row # rows)))"

text \<open>
  The body of the loop for one unified record that has a reference record: the rows and
  the parsing issues it adds.
\<close>

definition unnest_record ::
  "string \<Rightarrow> (string \<Rightarrow> json option) \<Rightarrow> json \<Rightarrow> json \<Rightarrow> json \<Rightarrow> exn + (json list \<times> json list)" where
  "unnest_record mode loads obs_id unified_record ref_record =
     bindE (py_get unified_record ''raw_response'' (JStr [])) (\<lambda>raw_response.
     bindE (parse_detailed_predictions loads raw_response) (\<lambda>predicted_details.
     bindE (py_get unified_record ''predicted_codes'' (JArr [])) (\<lambda>predicted_codes.
     bindE (py_iter predicted_codes) (\<lambda>codes.
       let predicted_from_details = map fst predicted_details;
           predicted_from_list = map py_str codes;
           issues =
             (if set predicted_from_details \<noteq> set predicted_from_list
              then [JObj [(''id'', obs_id),
                          (''codes_list'', JArr (map JStr (sorted_set predicted_from_list))),
                          (''codes_parsed'', JArr (map JStr (sorted_set predicted_from_details)))]]
              else [])
       in if mode = ''complex''
          then bindE (crime_ids_of loads ref_record) (\<lambda>crime_ids.
               bindE (make_rows crime_ids obs_id unified_record predicted_details) (\<lambda>rows.
                 Inr (rows, issues)))
          else bindE (make_row obs_id obs_id unified_record predicted_details) (\<lambda>row.
                 Inr ([row], issues))))))"

text \<open>
  The loop over \<^verbatim>\<open>unified_data.items()\<close>; a record whose identifier has no reference
  record, or a false one, is passed over by \<^verbatim>\<open>continue\<close>.
\<close>

fun unnest_loop ::
  "string \<Rightarrow> (string \<Rightarrow> json option) \<Rightarrow> (json \<times> json) list \<Rightarrow> json list \<times> json list \<Rightarrow>
   (json \<times> json) list \<Rightarrow> exn + (json list \<times> json list)" where
  "unnest_loop mode loads reference_data acc [] = Inr acc"
| "unnest_loop mode loads reference_data acc ((obs_id, unified_record) # rest) =
     (case dict_get py_eq reference_data obs_id of
        None \<Rightarrow> unnest_loop mode loads reference_data acc rest
      | Some ref_record \<Rightarrow>
          if \<not> truthy ref_record then unnest_loop mode loads reference_data acc rest
          else bindE (unnest_record mode loads obs_id unified_record ref_record) (\<lambda>new.
                 unnest_loop mode loads reference_data
                   (fst acc @ fst new, snd acc @ snd new) rest))"

text \<open>
  \<^verbatim>\<open>create_unnested_format\<close> returns the number of rows and the parsing issues, and
  writes the rows to the flattened file: the third component.
\<close>

definition create_unnested_format ::
  "string \<Rightarrow> (string \<Rightarrow> json option) \<Rightarrow> (json \<times> json) list \<Rightarrow> (json \<times> json) list \<Rightarrow>
   exn + (nat \<times> json list \<times> json list)" where
  "create_unnested_format mode loads unified reference =
     bindE (unnest_loop mode loads reference ([], []) unified) (\<lambda>acc.
       Inr (length (fst acc), snd acc, fst acc))"

section \<open>\<^verbatim>\<open>4_Api_delito_validador.py\<close>: the request executor and the orchestrator\<close>

subsection \<open>\<^verbatim>\<open>generate_prediction_api\<close>\<close>

text \<open>
  The values of \<^verbatim>\<open>config.api\<close> that the retry loop reads.
\<close>

record api_config =
  max_retries :: int
  timeout :: int
  retry_delay :: int

text \<open>
  What one task meets outside the program: \<open>endpoint\<close> is the remote call of attempt
  \<open>i\<close> with the two prompts and the timeout, which raises or answers the content of the
  first choice (a str, or \<^verbatim>\<open>None\<close>); \<open>random\<close> is the value of \<^verbatim>\<open>random.random()\<close>
  drawn at attempt \<open>i\<close>; \<open>now\<close> is \<^verbatim>\<open>datetime.now().isoformat()\<close> when the
  record is built. Waiting times are real numbers: the rounding of floats is not
  modelled.
\<close>

record task_world =
  endpoint :: "string \<Rightarrow> string \<Rightarrow> nat \<Rightarrow> int \<Rightarrow> exn + json"
  random :: "nat \<Rightarrow> real"
  now :: string

datatype event = Request nat int | Sleep real

fun py_strip :: "json \<Rightarrow> exn + string" where
  "py_strip (JStr s) = Inr (strip s)"
| "py_strip v = Inl (no_attribute v ''strip'')"

text \<open>
  The wait before the next attempt (lines 84 to 105): the backoff with jitter is
  computed first, \<^verbatim>\<open>random.uniform(0, b)\<close> being \<^verbatim>\<open>0 + (b - 0) * random()\<close>, and the
  \<^verbatim>\<open>if\<close>/\<^verbatim>\<open>elif\<close> chain then replaces it or keeps it. The three tests of the chain
  read the class name of the exception and its lowered text.
\<close>

definition rate_limit_error :: "exn \<Rightarrow> bool" where
  "rate_limit_error e =
     (substring_in ''RateLimitError'' (etype e) \<or> substring_in ''rate_limit'' (lower (emsg e)))"

definition timeout_error :: "exn \<Rightarrow> bool" where
  "timeout_error e =
     (substring_in ''timeout'' (lower (emsg e)) \<or> substring_in ''timed out'' (lower (emsg e)))"

definition network_error :: "exn \<Rightarrow> bool" where
  "network_error e =
     (substring_in ''connection'' (lower (emsg e)) \<or> substring_in ''network'' (lower (emsg e)))"

definition wait_time :: "api_config \<Rightarrow> real \<Rightarrow> nat \<Rightarrow> exn \<Rightarrow> real" where
  "wait_time cfg u attempt e =
     (let base_delay = (2 :: int);
          backoff = base_delay ^ (attempt + 1);
          jitter = 0 + (real attempt * 0.5 - 0) * u;
          wait = real_of_int backoff + jitter
      in if rate_limit_error e then real_of_int (retry_delay cfg + int attempt * 15)
         else if timeout_error e then wait
         else if network_error e then real_of_int (backoff * 2) + jitter
         else wait)"

definition final_sentinel :: string where
  \<open>final_sentinel =
     ''{"razonamiento": "ERROR: M'' @ [CHR 0xE1] @ ''ximo de reintentos alcanzado despu'' @
     [CHR 0xE9] @ ''s de m'' @ [CHR 0xFA] @
     ''ltiples intentos con timeout incremental", "clasificaciones": []}''\<close>

definition fallthrough_sentinel :: string where
  \<open>fallthrough_sentinel = ''{"razonamiento": "ERROR en llamada API", "clasificaciones": []}''\<close>

text \<open>
  The loop \<^verbatim>\<open>for attempt in range(max_retries)\<close>, over the attempts still to make. It
  gives the text returned and the requests and sleeps in the order in which they
  happen.
\<close>

fun attempts :: "api_config \<Rightarrow> task_world \<Rightarrow> string \<Rightarrow> string \<Rightarrow> nat list \<Rightarrow> string \<times> event list" where
  "attempts cfg w system_prompt user_prompt [] = (fallthrough_sentinel, [])"
| "attempts cfg w system_prompt user_prompt (attempt # rest) =
     (let current_timeout = timeout cfg + int attempt * 30
      in case bindE (endpoint w system_prompt user_prompt attempt current_timeout) py_strip of
           Inr content \<Rightarrow> (content, [Request attempt current_timeout])
         | Inl e \<Rightarrow>
             if int attempt < max_retries cfg - 1
             then (let later = attempts cfg w system_prompt user_prompt rest
                   in (fst later,
                       Request attempt current_timeout #
                       Sleep (wait_time cfg (random w attempt) attempt e) # snd later))
             else (final_sentinel, [Request attempt current_timeout]))"

definition generate_prediction_api ::
  "api_config \<Rightarrow> task_world \<Rightarrow> string \<Rightarrow> string \<Rightarrow> string \<times> event list" where
  "generate_prediction_api cfg w system_prompt user_prompt =
     attempts cfg w system_prompt user_prompt [0..<nat (max_retries cfg)]"

subsection \<open>\<^verbatim>\<open>parse_response\<close>\<close>

definition pattern_json :: rx where
  \<open>pattern_json = seq
     [Lit ''{'', LazyStar AnyChar, Lit ''"clasificaciones":'', Star Space, Lit ''['',
      LazyStar AnyChar, Lit '']'', Star Space, Lit ''}'']\<close>

definition pattern_codigo :: rx where
  \<open>pattern_codigo = seq
     [Lit ''"codigo":'', Star Space, Lit ''"'', Group ''1'' (Plus Digit), Lit ''"'']\<close>

definition item_codigo :: "json \<Rightarrow> json \<Rightarrow> json" where
  "item_codigo item d = (case item of JObj ms \<Rightarrow> (case sget ms ''codigo'' of None \<Rightarrow> d | Some v \<Rightarrow> v) | _ \<Rightarrow> d)"

definition is_dict :: "json \<Rightarrow> bool" where
  "is_dict v = (case v of JObj ms \<Rightarrow> True | _ \<Rightarrow> False)"

text \<open>
  The three lines that read a decoded answer: the reasoning, of any type, and the
  sorted codes of the items that are dicts with a true \<^verbatim>\<open>codigo\<close>.
\<close>

definition codes_of :: "json \<Rightarrow> string \<Rightarrow> exn + (string list \<times> json)" where
  "codes_of data default_text =
     bindE (py_get data ''razonamiento'' (JStr default_text)) (\<lambda>razonamiento.
     bindE (py_get data ''clasificaciones'' (JArr [])) (\<lambda>clasificaciones.
     bindE (py_iter clasificaciones) (\<lambda>items.
       Inr (sort (map (\<lambda>item. py_str (item_codigo item (JStr [])))
                   (filter (\<lambda>item. is_dict item \<and> truthy (item_codigo item JNull)) items)),
            razonamiento))))"

definition parse_response :: "(string \<Rightarrow> json option) \<Rightarrow> string \<Rightarrow> exn + (string list \<times> json)" where
  "parse_response loads response =
     (case loads (strip response) of
        Some data \<Rightarrow> codes_of data (''No se encontr'' @ [CHR 0xF3] @ '' razonamiento.'')
      | None \<Rightarrow>
          (let partial =
                 (case rx_search pattern_json response of
                    None \<Rightarrow> None
                  | Some json_match \<Rightarrow>
                      (case loads (group0 json_match) of
                         None \<Rightarrow> None
                       | Some data \<Rightarrow>
                           (case codes_of data (''Razonamiento extra'' @ [CHR 0xED] @ ''do parcialmente.'') of
                              Inl e \<Rightarrow> None
                            | Inr found \<Rightarrow> Some found)));
               codes_matches = map (\<lambda>m. group m ''1'') (rx_finditer pattern_codigo response)
           in case partial of
                Some found \<Rightarrow> Inr found
              | None \<Rightarrow>
                  if codes_matches \<noteq> []
                  then Inr (sorted_set codes_matches,
                            JStr (''C'' @ [CHR 0xF3] @ ''digos extra'' @ [CHR 0xED] @ ''dos con regex.''))
                  else Inr ([], JStr (''Error de parseo - respuesta no v'' @ [CHR 0xE1] @ ''lida: '' @
                                      take 100 response @ ''...''))))"

subsection \<open>\<^verbatim>\<open>process_single_case\<close>\<close>

text \<open>
  A case is the dict that \<^verbatim>\<open>load_clean_data\<close> builds. \<open>dget\<close> is \<^verbatim>\<open>case_data.get\<close>.
\<close>

definition dget :: "(string \<times> json) list \<Rightarrow> string \<Rightarrow> json \<Rightarrow> json" where
  "dget d k default_value = (case sget d k of None \<Rightarrow> default_value | Some v \<Rightarrow> v)"

text \<open>The normalisation of \<^verbatim>\<open>codigos_esperados\<close> to a list, then to the codes of each element.\<close>

definition codigos_list :: "json \<Rightarrow> json list" where
  "codigos_list codigos_raw =
     (case codigos_raw of
        JStr s \<Rightarrow> if strip s \<noteq> [] then [JStr s] else []
      | JArr xs \<Rightarrow> xs
      | _ \<Rightarrow> [])"

fun expected_code :: "json \<Rightarrow> string list" where
  "expected_code (JInt n) = [str_int n]"
| "expected_code (JBool b) = [str_int (if b then 1 else 0)]"
| "expected_code (JStr s) = (if strip s \<noteq> [] then [strip s] else [])"
| "expected_code (JObj ms) =
     (case sget ms ''codigo'' of
        None \<Rightarrow> []
      | Some codigo_val \<Rightarrow>
          if codigo_val \<noteq> JNull \<and> strip (py_str codigo_val) \<noteq> []
          then [strip (py_str codigo_val)] else [])"
| "expected_code v = []"

text \<open>
  The body of the \<^verbatim>\<open>try\<close>. The knowledge base is the parameter \<open>get_validation_prompt\<close>,
  which may raise.
\<close>

definition try_single_case ::
  "(json \<Rightarrow> exn + string \<times> string) \<Rightarrow> api_config \<Rightarrow> (string \<Rightarrow> json option) \<Rightarrow> task_world \<Rightarrow>
   (string \<times> json) list \<Rightarrow> exn + json" where
  "try_single_case get_validation_prompt cfg loads w case_data =
     (let case_id = dget case_data ''id'' (JStr ''unknown'');
          observacion = dget case_data ''observacion'' (JStr []);
          codigos_raw = codigos_list (dget case_data ''codigos_esperados'' (JArr []));
          expected_codes = sorted_set (concat (map expected_code codigos_raw));
          ids_delito_originales = dget case_data ''ids_delito_originales'' (JArr [])
      in bindE (get_validation_prompt observacion) (\<lambda>prompts.
           let raw_response = fst (generate_prediction_api cfg w (fst prompts) (snd prompts))
           in bindE (parse_response loads raw_response) (\<lambda>parsed.
                Inr (JObj
                  [(''id'', case_id),
                   (''observacion'', observacion),
                   (''expected_codes'', JArr (map JStr expected_codes)),
                   (''ids_delito_originales'', ids_delito_originales),
                   (''predicted_codes'', JArr (map JStr (fst parsed))),
                   (''razonamiento_modelo'', snd parsed),
                   (''raw_response'', JStr raw_response),
                   (''timestamp'', JStr (now w))]))))"

text \<open>The record that the handler \<^verbatim>\<open>except Exception as e\<close> returns.\<close>

definition failed_record :: "task_world \<Rightarrow> (string \<times> json) list \<Rightarrow> exn \<Rightarrow> json" where
  "failed_record w case_data e =
     JObj
       [(''id'', dget case_data ''id'' (JStr ''unknown'')),
        (''observacion'', dget case_data ''observacion'' (JStr [])),
        (''expected_codes'', dget case_data ''codigos_esperados'' (JArr [])),
        (''ids_delito_originales'', dget case_data ''ids_delito_originales'' (JArr [])),
        (''predicted_codes'', JArr []),
        (''razonamiento_modelo'', JStr (''Error en procesamiento: '' @ emsg e)),
        (''raw_response'', JStr []),
        (''timestamp'', JStr (now w)),
        (''error'', JBool True)]"

definition process_single_case ::
  "(json \<Rightarrow> exn + string \<times> string) \<Rightarrow> api_config \<Rightarrow> (string \<Rightarrow> json option) \<Rightarrow> task_world \<Rightarrow>
   (string \<times> json) list \<Rightarrow> json" where
  "process_single_case get_validation_prompt cfg loads w case_data =
     (case try_single_case get_validation_prompt cfg loads w case_data of
        Inr result \<Rightarrow> result
      | Inl e \<Rightarrow> failed_record w case_data e)"

subsection \<open>\<^verbatim>\<open>process_batch_async\<close> and \<^verbatim>\<open>save_batch_results\<close>\<close>

text \<open>
  The tasks of a batch share no state, so each runs in a world of its own, \<open>worlds i\<close>
  for the case at position \<open>i\<close>. \<^verbatim>\<open>tqdm_asyncio.gather\<close> gives the results in the order
  of the tasks, whatever the order in which they end.
\<close>

definition process_batch_async ::
  "(json \<Rightarrow> exn + string \<times> string) \<Rightarrow> api_config \<Rightarrow> (string \<Rightarrow> json option) \<Rightarrow>
   (nat \<Rightarrow> task_world) \<Rightarrow> (string \<times> json) list list \<Rightarrow> json list" where
  "process_batch_async get_validation_prompt cfg loads worlds batch_data =
     map (\<lambda>ic. process_single_case get_validation_prompt cfg loads (worlds (fst ic)) (snd ic))
       (enumerate 0 batch_data)"

text \<open>
  \<^verbatim>\<open>save_batch_results\<close> opens the file for writing, which empties a file that had
  the name before, and writes the results in their order. \<open>f_write\<close> is what
  \<^verbatim>\<open>f.write(json.dumps(result, ensure_ascii=False) + '\n')\<close> does with one result, a
  parameter: the text that reaches the file, or the exception raised. The write raises
  \<^verbatim>\<open>UnicodeEncodeError\<close> when the text holds a code point that UTF-8 does not encode,
  a lone surrogate, which \<^verbatim>\<open>json.loads\<close> produces from an escape such as
  \<^verbatim>\<open>\ud83d\<close> in the answer of the endpoint. No \<open>string\<close> holds such a code point, which
  is why the outcome of the write is not computed from the value. The first exception
  ends the loop: the \<^verbatim>\<open>with\<close> statement closes the file, which keeps the lines
  written before, and the exception leaves the function. \<open>stamp\<close> is the time of the
  call as \<^verbatim>\<open>strftime\<close> formats it.
\<close>

definition batch_filename :: "int \<Rightarrow> string \<Rightarrow> string" where
  "batch_filename batch_id stamp = ''resultados_lote_'' @ str_int batch_id @ ''_'' @ stamp @ ''.jsonl''"

fun write_results :: "(json \<Rightarrow> exn + string) \<Rightarrow> json list \<Rightarrow> exn option \<times> string list" where
  "write_results f_write [] = (None, [])"
| "write_results f_write (result # rest) =
     (case f_write result of
        Inl e \<Rightarrow> (Some e, [])
      | Inr line \<Rightarrow>
          (case write_results f_write rest of (raised, later) \<Rightarrow> (raised, line # later)))"

definition save_batch_results ::
  "(json \<Rightarrow> exn + string) \<Rightarrow> batch_file list \<Rightarrow> json list \<Rightarrow> int \<Rightarrow> string \<Rightarrow>
   (exn + string) \<times> batch_file list" where
  "save_batch_results f_write lotes_dir results batch_id stamp =
     (let filename = batch_filename batch_id stamp;
          written = write_results f_write results
      in (case fst written of None \<Rightarrow> Inr filename | Some e \<Rightarrow> Inl e,
          filter (\<lambda>f. fst f \<noteq> filename) lotes_dir @ [(filename, snd written)]))"

subsection \<open>\<^verbatim>\<open>load_clean_data\<close>\<close>

fun py_len :: "json \<Rightarrow> exn + nat" where
  "py_len (JArr xs) = Inr (length xs)"
| "py_len (JStr s) = Inr (length s)"
| "py_len (JObj ms) = Inr (length ms)"
| "py_len v = Inl TypeError"

text \<open>
  The body of the \<^verbatim>\<open>try\<close> for one line of the clean file: the case built from the
  line and the number of its original records, or nothing when the record has no three
  messages.
\<close>

definition read_clean_line ::
  "(string \<Rightarrow> json option) \<Rightarrow> string \<Rightarrow> exn + ((string \<times> json) list \<times> nat) option" where
  "read_clean_line loads line =
     bindE (py_loads loads (JStr (strip line))) (\<lambda>record.
     bindE (py_in ''messages'' record) (\<lambda>has_messages.
       if \<not> has_messages then Inr None
       else bindE (py_item record ''messages'') (\<lambda>messages.
            bindE (py_len messages) (\<lambda>n.
              if n < 3 then Inr None
              else bindE (py_index messages 1) (\<lambda>user_message.
                   bindE (py_item user_message ''content'') (\<lambda>observacion.
                   bindE (py_index messages 2) (\<lambda>assistant_message.
                   bindE (py_item assistant_message ''content'') (\<lambda>content.
                   bindE (py_loads loads content) (\<lambda>assistant_content.
                   bindE (py_get assistant_content ''ids_delito_originales'' (JArr [])) (\<lambda>ids_originales.
                   bindE (py_len ids_originales) (\<lambda>originals.
                   bindE (py_get record ''id'' JNull) (\<lambda>record_id.
                   bindE (py_get assistant_content ''codigos_delito'' (JArr [])) (\<lambda>codigos_delito.
                     Inr (Some ([(''id'', record_id),
                                 (''observacion'', observacion),
                                 (''codigos_esperados'', codigos_delito),
                                 (''ids_delito_originales'', ids_originales)],
                                originals)))))))))))))))"

text \<open>
  The clean file is its lines, or \<open>None\<close> when it does not exist. A line on which the
  body raises is passed over.
\<close>

definition load_clean_data ::
  "(string \<Rightarrow> json option) \<Rightarrow> string list option \<Rightarrow> exn + ((string \<times> json) list list \<times> nat)" where
  "load_clean_data loads clean_file =
     (case clean_file of
        None \<Rightarrow> Inl (Exn ''FileNotFoundError'' ''No se encuentra archivo limpio'')
      | Some file_lines \<Rightarrow>
          Inr (foldl (\<lambda>acc line.
                 case read_clean_line loads line of
                   Inr (Some found) \<Rightarrow> (fst acc @ [fst found], snd acc + snd found)
                 | _ \<Rightarrow> acc)
               ([], 0) file_lines))"

subsection \<open>\<^verbatim>\<open>run_validation_async\<close>\<close>

text \<open>
  What a run meets outside the program: \<open>api_key\<close> is the key passed in or the
  outcome of \<^verbatim>\<open>config.get_api_key\<close>, which raises when no key is set;
  \<open>knowledge_base\<close> is the outcome of \<^verbatim>\<open>get_knowledge_base\<close>, an exception or the
  text of the attribute \<^verbatim>\<open>version\<close> of the object when it has one; \<open>prompt_of\<close> is its
  \<^verbatim>\<open>get_validation_prompt\<close>; \<open>clean_file\<close> is the clean file; \<open>answer\<close> is what the
  operator types when asked to confirm; \<open>validator_init\<close> is the exception raised
  while the validator is built, if any; \<open>interrupt\<close> is the interrupt of the
  operator, if any; \<open>worlds b i\<close> is the world of task \<open>i\<close> of batch \<open>b\<close>;
  \<open>stamps b\<close> is the time in the name of the file of batch \<open>b\<close>; \<open>elapsed_seconds\<close>
  is the duration measured at the end.

  The function is a coroutine that \<^verbatim>\<open>asyncio.run\<close> drives, so an interrupt reaches
  it in one of two ways. While the coroutine waits for the tasks of batch \<open>b\<close>, the
  event loop cancels it: \<^verbatim>\<open>CancelledError\<close> is raised at the \<^verbatim>\<open>await\<close>; it is no
  instance of \<^verbatim>\<open>Exception\<close>, none of the two handlers takes it, and it leaves the
  function, which returns no status. Only a \<^verbatim>\<open>KeyboardInterrupt\<close> raised while the
  statements of the coroutine itself run, here those of the loop before the
  \<^verbatim>\<open>await\<close> of batch \<open>b\<close>, reaches the handler that returns \<open>False\<close>.
\<close>

datatype interruption = DuringAwait nat | InOwnFrame nat

record run_world =
  api_key :: "exn + string"
  knowledge_base :: "exn + string option"
  prompt_of :: "json \<Rightarrow> exn + string \<times> string"
  clean_file :: "string list option"
  answer :: string
  validator_init :: "exn option"
  interrupt :: "interruption option"
  worlds :: "nat \<Rightarrow> nat \<Rightarrow> task_world"
  stamps :: "nat \<Rightarrow> string"
  elapsed_seconds :: real

record run_config =
  prompts_version :: string
  batch_size :: int
  api :: api_config

text \<open>\<^verbatim>\<open>xs[i:j]\<close>, where a negative bound counts from the end.\<close>

definition py_slice :: "'a list \<Rightarrow> int \<Rightarrow> int \<Rightarrow> 'a list" where
  "py_slice xs i j =
     (let n = int (length xs);
          lo = (if i < 0 then max (n + i) 0 else min i n);
          hi = (if j < 0 then max (n + j) 0 else min j n)
      in take (nat (hi - lo)) (drop (nat lo) xs))"

text \<open>
  The loop over the batches, with what ends it early: \<open>Inr (False, d)\<close> is an
  exception that a handler of \<^verbatim>\<open>run_validation_async\<close> takes, the directory being
  \<open>d\<close> by then, and \<open>Inl e\<close> one that no handler takes. The file of the batch during
  which an interrupt comes is not written; the file of a batch whose write raises
  keeps the lines written before.
\<close>

fun run_batches ::
  "run_config \<Rightarrow> (string \<Rightarrow> json option) \<Rightarrow> (json \<Rightarrow> exn + string) \<Rightarrow> run_world \<Rightarrow>
   (string \<times> json) list list \<Rightarrow> int \<Rightarrow> nat list \<Rightarrow> batch_file list \<Rightarrow>
   exn + bool \<times> batch_file list" where
  "run_batches cfg loads f_write w data_to_process bsize [] lotes_dir = Inr (True, lotes_dir)"
| "run_batches cfg loads f_write w data_to_process bsize (batch_idx # rest) lotes_dir =
     (if interrupt w = Some (InOwnFrame batch_idx) then Inr (False, lotes_dir)
      else if interrupt w = Some (DuringAwait batch_idx) then Inl (Exn ''CancelledError'' [])
      else (let start_idx = int batch_idx * bsize;
                end_idx = min (start_idx + bsize) (int (length data_to_process));
                batch_data = py_slice data_to_process start_idx end_idx;
                batch_id = int batch_idx + 1;
                batch_results =
                  process_batch_async (prompt_of w) (api cfg) loads (worlds w batch_idx) batch_data;
                saved = save_batch_results f_write lotes_dir batch_results batch_id (stamps w batch_idx)
            in case fst saved of
                 Inl e \<Rightarrow> Inr (False, snd saved)
               | Inr filename \<Rightarrow>
                   run_batches cfg loads f_write w data_to_process bsize rest (snd saved)))"

text \<open>
  The \<^verbatim>\<open>try\<close> of \<^verbatim>\<open>run_validation_async\<close> with its handlers: the status returned and
  the directory of batch files as the run leaves it, or the exception that no handler
  takes. Every instance of \<^verbatim>\<open>Exception\<close> raised inside ends the run with \<open>False\<close>.
  Before the first batch the files named \<^verbatim>\<open>resultados_*.jsonl\<close> are moved to a
  backup directory.
\<close>

definition try_validation ::
  "run_config \<Rightarrow> (string \<Rightarrow> json option) \<Rightarrow> (json \<Rightarrow> exn + string) \<Rightarrow> run_world \<Rightarrow>
   int option \<Rightarrow> bool \<Rightarrow> batch_file list \<Rightarrow> exn + bool \<times> batch_file list" where
  "try_validation cfg loads f_write w requested_size auto_confirm lotes_dir =
     (case knowledge_base w of
        Inl e \<Rightarrow> Inr (False, lotes_dir)
      | Inr kb_version \<Rightarrow>
          if kb_version \<noteq> None \<and> kb_version \<noteq> Some (prompts_version cfg) then Inr (False, lotes_dir)
          else (case load_clean_data loads (clean_file w) of
                  Inl e \<Rightarrow> Inr (False, lotes_dir)
                | Inr loaded \<Rightarrow>
                    (let data_to_process = fst loaded
                     in if data_to_process = [] then Inr (True, lotes_dir)
                        else (let total_cases = int (length data_to_process);
                                  bsize = (case requested_size of
                                             None \<Rightarrow> batch_size cfg
                                           | Some b \<Rightarrow> if b \<noteq> 0 then b else batch_size cfg)
                              in if bsize = 0 then Inr (False, lotes_dir)
                                 else (let num_batches = (total_cases + bsize - 1) div bsize
                                       in if \<not> auto_confirm \<and> lower (answer w) \<in> set [''n'', ''no'']
                                          then Inr (False, lotes_dir)
                                          else (let kept = filter (\<lambda>f. \<not> glob_match ''resultados_*.jsonl'' (fst f)) lotes_dir
                                                in if validator_init w \<noteq> None then Inr (False, kept)
                                                   else bindE (run_batches cfg loads f_write w data_to_process bsize
                                                                 [0..<nat num_batches] kept) (\<lambda>finished.
                                                          if \<not> fst finished then Inr (False, snd finished)
                                                          else if elapsed_seconds w = 0 then Inr (False, snd finished)
                                                          else Inr (True, snd finished))))))))"

text \<open>
  The lookup of the key stands before the \<^verbatim>\<open>try\<close>: its exception leaves the function.
\<close>

definition run_validation_async ::
  "run_config \<Rightarrow> (string \<Rightarrow> json option) \<Rightarrow> (json \<Rightarrow> exn + string) \<Rightarrow> run_world \<Rightarrow>
   int option \<Rightarrow> bool \<Rightarrow> batch_file list \<Rightarrow> exn + bool \<times> batch_file list" where
  "run_validation_async cfg loads f_write w requested_size auto_confirm lotes_dir =
     bindE (api_key w) (\<lambda>key.
       try_validation cfg loads f_write w requested_size auto_confirm lotes_dir)"

section \<open>The three tests of the classifier, read from the texts of a record\<close>

text \<open>
  The three booleans of the specification, stated on the two texts of a record and not
  taken from the code. For a record whose reasoning is the str \<open>reasoning\<close> and whose
  raw response is the str \<open>raw\<close>: the marker \<^verbatim>\<open>fallback\<close> occurs in the reasoning,
  whatever the case of its letters; the raw response is not empty and the decoder
  accepts it; the decoded response is an object with a true value under
  \<^verbatim>\<open>clasificaciones\<close>, which for a list means that it is not empty. \<open>truth_table\<close>
  is the table of the five classes over three booleans, as the specification gives it.
\<close>

definition marked_fallback :: "string \<Rightarrow> bool" where
  "marked_fallback reasoning = substring_in ''fallback'' (lower reasoning)"

definition valid_json :: "(string \<Rightarrow> json option) \<Rightarrow> string \<Rightarrow> bool" where
  "valid_json loads raw = (raw \<noteq> [] \<and> loads raw \<noteq> None)"

definition with_items :: "(string \<Rightarrow> json option) \<Rightarrow> string \<Rightarrow> bool" where
  "with_items loads raw =
     (raw \<noteq> [] \<and>
      (case loads raw of
         Some (JObj parsed_raw) \<Rightarrow>
           (case sget parsed_raw ''clasificaciones'' of None \<Rightarrow> False | Some items \<Rightarrow> truthy items)
       | _ \<Rightarrow> False))"

definition truth_table :: "bool \<Rightarrow> bool \<Rightarrow> bool \<Rightarrow> string" where
  "truth_table fallback valid items =
     (if \<not> fallback \<and> valid \<and> items then ''Formato A: Perfecto''
      else if fallback \<and> valid \<and> items then ''Formato B: Fallback Recuperable''
      else if fallback \<and> \<not> valid then ''Formato C: Fallback Truncado''
      else if \<not> fallback \<and> (\<not> valid \<or> \<not> items) then ''Formato D: Inconsistente''
      else ''Formato E: Otro'')"

section \<open>What a file leaves under an identifier\<close>

text \<open>
  \<open>line_entry\<close> is the key and the record that \<open>load_line\<close> stores for a line, if it
  stores any; \<open>last_entry\<close> is the record that the lines of a file leave under the
  identifier \<open>X\<close>: that of the last line stored under a key equal to \<open>X\<close>.
\<close>

definition line_entry :: "(string \<Rightarrow> json option) \<Rightarrow> string \<Rightarrow> (json \<times> json) option" where
  "line_entry loads line =
     (case loads (strip line) of
        None \<Rightarrow> None
      | Some record \<Rightarrow>
          (case normalize_id record of
             Inl e \<Rightarrow> None
           | Inr (record_id, record') \<Rightarrow>
               if truthy record_id \<and> hashable record_id then Some (record_id, record') else None))"

definition last_entry :: "(string \<Rightarrow> json option) \<Rightarrow> json \<Rightarrow> string list \<Rightarrow> json option" where
  "last_entry loads X lines =
     (case filter (\<lambda>kr. py_eq (fst kr) X) (List.map_filter (line_entry loads) lines) of
        [] \<Rightarrow> None
      | e # es \<Rightarrow> Some (snd (last (e # es))))"

section \<open>Inputs for the examples\<close>

text \<open>
  A configuration with the values of \<^verbatim>\<open>config.yaml\<close> named in \<^verbatim>\<open>config_manager.py\<close>,
  an endpoint that is never reached through the network, and one that always answers
  with a rate limit.
\<close>

definition cfg3 :: api_config where
  "cfg3 = \<lparr>max_retries = 3, timeout = 90, retry_delay = 60\<rparr>"

definition w_net :: task_world where
  "w_net = \<lparr>endpoint = (\<lambda>sp up i t. Inl (Exn ''APIConnectionError'' ''Connection error.'')),
            random = (\<lambda>i. 1 / 2), now = ''2025-01-01T00:00:00''\<rparr>"

definition w_rate :: task_world where
  "w_rate = \<lparr>endpoint = (\<lambda>sp up i t. Inl (Exn ''RateLimitError'' ''Error code: 429'')),
             random = (\<lambda>i. 0), now = ''2025-01-01T00:00:00''\<rparr>"

text \<open>
  Directories of batch files, their lines written without the line feed that \<open>strip\<close>
  removes: two runs of the same batch; a file of the first naming pattern beside one
  of the second; three files of the first pattern; a file of the third pattern beside
  one of the first.
\<close>

definition dir_two :: "batch_file list" where
  \<open>dir_two =
     [(''resultados_lote_1_20250102_0900.jsonl'', [''{"id": "X", "predicted_codes": ["21"]}'']),
      (''resultados_lote_1_20250101_0900.jsonl'',
         [''{"id": "X", "predicted_codes": ["9"]}'', ''{"id": "Y", "predicted_codes": []}''])]\<close>

definition dir_mixed :: "batch_file list" where
  \<open>dir_mixed =
     [(''resultados_lote_1.jsonl'', [''{"id": "X", "predicted_codes": ["9"]}'']),
      (''resultados_x_lote_1.jsonl'', [''{"id": "X", "predicted_codes": ["21"]}''])]\<close>

definition dir_three :: "batch_file list" where
  \<open>dir_three =
     [(''resultados_lote_1.jsonl'', [''{"id": "X", "predicted_codes": ["9"]}'']),
      (''resultados_lote_2.jsonl'', [''{"id": "X", "predicted_codes": ["21"]}'']),
      (''resultados_lote_3.jsonl'', [''{"id": "X", "predicted_codes": []}''])]\<close>

definition dir_legacy :: "batch_file list" where
  \<open>dir_legacy =
     [(''lote_2.jsonl'', [''{"id": "B", "predicted_codes": []}'']),
      (''resultados_lote_1.jsonl'', [''{"id": "A", "predicted_codes": ["9"]}''])]\<close>

text \<open>
  Two unified records, and a reference that knows the first only.
\<close>

definition record_A :: json where
  \<open>record_A =
     JObj [(''id'', JStr ''A''), (''observacion'', JStr ''robo de celular''),
       (''expected_codes'', JArr [JStr ''9'']), (''predicted_codes'', JArr [JStr ''9'']),
       (''razonamiento_modelo'', JStr ''r''),
       (''raw_response'', JStr ''{"razonamiento": "r", "clasificaciones": [{"codigo": "9", "justificacion": "j"}]}''),
       (''timestamp'', JStr ''2025-01-01T00:00:00'')]\<close>

definition record_Z :: json where
  "record_Z =
     JObj [(''id'', JStr ''Z''), (''observacion'', JStr ''estafa''),
       (''expected_codes'', JArr []), (''predicted_codes'', JArr []),
       (''razonamiento_modelo'', JStr ''r''), (''raw_response'', JStr ''''),
       (''timestamp'', JStr ''2025-01-01T00:00:01'')]"

definition reference_one :: "(json \<times> json) list" where
  "reference_one = [(JStr ''A'', JObj [(''id'', JStr ''A''), (''messages'', JArr [])])]"

text \<open>
  A knowledge base that never raises; an endpoint that answers one classification,
  and one that answers a JSON list, which \<^verbatim>\<open>parse_response\<close> cannot read;
  three cases; a run configuration; a run with no case to process and a run with one.
\<close>

definition kb_example :: "json \<Rightarrow> exn + string \<times> string" where
  "kb_example observacion =
     Inr (''Eres un clasificador de delitos.'', ''Clasifica: '' @ py_str observacion)"

definition w_ok :: task_world where
  \<open>w_ok = \<lparr>endpoint = (\<lambda>sp up i t. Inr (JStr
              ''{"razonamiento": "r", "clasificaciones": [{"codigo": "9", "justificacion": "j"}]}'')),
           random = (\<lambda>i. 0), now = ''2025-01-01T09:00:00''\<rparr>\<close>

definition w_list :: task_world where
  "w_list = \<lparr>endpoint = (\<lambda>sp up i t. Inr (JStr ''[]'')),
             random = (\<lambda>i. 0), now = ''2025-01-01T09:00:01''\<rparr>"

text \<open>
  An endpoint whose answer decodes and has \<^verbatim>\<open>null\<close> for its reasoning.
\<close>

definition w_null :: task_world where
  \<open>w_null = \<lparr>endpoint = (\<lambda>sp up i t. Inr (JStr
                ''{"razonamiento": null, "clasificaciones": [{"codigo": "9", "justificacion": "j"}]}'')),
             random = (\<lambda>i. 0), now = ''2025-01-01T09:00:02''\<rparr>\<close>

definition case_A :: "(string \<times> json) list" where
  "case_A = [(''id'', JStr ''A''), (''observacion'', JStr ''robo de celular''),
     (''codigos_esperados'', JArr [JInt 9]), (''ids_delito_originales'', JArr [JStr ''A-1''])]"

definition case_B :: "(string \<times> json) list" where
  "case_B = [(''id'', JStr ''B''), (''observacion'', JStr ''estafa''),
     (''codigos_esperados'', JArr [JStr ''21'']), (''ids_delito_originales'', JArr [JStr ''B-1''])]"

definition case_C :: "(string \<times> json) list" where
  "case_C = [(''id'', JStr ''C''), (''observacion'', JStr ''hurto de bicicleta''),
     (''codigos_esperados'', JArr [JStr ''9'']), (''ids_delito_originales'', JArr [JStr ''C-1''])]"

text \<open>
  A write that raises for the record of case \<^verbatim>\<open>B\<close> and succeeds for the others: what
  happens when the reasoning that the record of \<^verbatim>\<open>B\<close> keeps holds a lone surrogate.
\<close>

definition write_fails_on_B :: "json \<Rightarrow> exn + string" where
  "write_fails_on_B result =
     (if py_item result ''id'' = Inr (JStr ''B'') then Inl (Exn ''UnicodeEncodeError'' [])
      else write_line result)"

definition run_cfg :: run_config where
  "run_cfg = \<lparr>prompts_version = ''3'', batch_size = 100, api = cfg3\<rparr>"

definition clean_line_A :: string where
  "clean_line_A = json_dumps (JObj
     [(''id'', JStr ''A''),
      (''messages'', JArr
         [JObj [(''role'', JStr ''system''), (''content'', JStr ''Eres un clasificador de delitos.'')],
          JObj [(''role'', JStr ''user''), (''content'', JStr ''robo de celular'')],
          JObj [(''role'', JStr ''assistant''),
                (''content'', JStr (json_dumps (JObj
                   [(''codigos_delito'', JArr [JInt 9]),
                    (''ids_delito_originales'', JArr [JStr ''A-1''])])))]])])"

definition w_no_work :: run_world where
  "w_no_work =
     \<lparr>api_key = Inr ''sk-00000'', knowledge_base = Inr None, prompt_of = kb_example,
      clean_file = Some [], answer = [], validator_init = None, interrupt = None,
      worlds = (\<lambda>b i. w_ok), stamps = (\<lambda>b. ''20250101_0900''), elapsed_seconds = 1\<rparr>"

definition w_one_case :: run_world where
  "w_one_case =
     \<lparr>api_key = Inr ''sk-00000'', knowledge_base = Inr None, prompt_of = kb_example,
      clean_file = Some [clean_line_A], answer = [], validator_init = None, interrupt = None,
      worlds = (\<lambda>b i. w_ok), stamps = (\<lambda>b. ''20250101_0900''), elapsed_seconds = 1\<rparr>"

section \<open>Properties\<close>

lemma bindE_Inl [simp]: "bindE (Inl e) f = Inl e"
  by (simp add: bindE_def)

lemma bindE_Inr [simp]: "bindE (Inr x) f = f x"
  by (simp add: bindE_def)

subsection \<open>The error classifier\<close>

lemma has_items_object:
  "has_items (JObj parsed_raw) =
     Inr (case sget parsed_raw ''clasificaciones'' of None \<Rightarrow> False | Some items \<Rightarrow> truthy items)"
  by (simp add: has_items_def split: option.splits)

text \<open>
  Where the reasoning and the raw response of a record are strs and the raw response,
  when the decoder accepts it, is an object, \<^verbatim>\<open>classify_record\<close> returns the label
  that the table gives for the three tests of the record.
\<close>

lemma classify_record_table:
  assumes "dget ms ''razonamiento_modelo'' (JStr []) = JStr reasoning"
    and "dget ms ''raw_response'' (JStr []) = JStr raw"
    and "\<forall>v. loads raw = Some v \<longrightarrow> is_dict v"
  shows "classify_record loads (JObj ms) =
     Inr (truth_table (marked_fallback reasoning) (valid_json loads raw) (with_items loads raw))"
proof -
  have get1: "py_get (JObj ms) ''razonamiento_modelo'' (JStr []) = Inr (JStr reasoning)"
    using assms(1) by (simp add: dget_def)
  have get2: "py_get (JObj ms) ''raw_response'' (JStr []) = Inr (JStr raw)"
    using assms(2) by (simp add: dget_def)
  show ?thesis
  proof (cases "raw = []")
    case True
    then show ?thesis
      by (simp add: classify_record_def record_flags_def get1 get2 format_of_def truth_table_def
            marked_fallback_def valid_json_def with_items_def del: py_get.simps)
  next
    case False
    show ?thesis
    proof (cases "loads raw")
      case None
      with False show ?thesis
        by (simp add: classify_record_def record_flags_def get1 get2 format_of_def truth_table_def
              marked_fallback_def valid_json_def with_items_def del: py_get.simps)
    next
      case (Some v)
      with assms(3) obtain parsed_raw where v: "v = JObj parsed_raw"
        by (cases v) (auto simp: is_dict_def)
      from False Some v show ?thesis
        by (simp add: classify_record_def record_flags_def get1 get2 format_of_def truth_table_def
              marked_fallback_def valid_json_def with_items_def has_items_object
              del: py_get.simps split: option.splits)
    qed
  qed
qed

text \<open>
  The two records of the scenario of the specification: a decoded answer with one
  item and no marker is Perfect, an empty raw response without marker is Inconsistent.
\<close>

lemma classify_record_scenario:
  "classify_record json_loads record_A = Inr ''Formato A: Perfecto'' \<and>
   classify_record json_loads record_Z = Inr ''Formato D: Inconsistente''"
  by code_simp

text \<open>
  Claim C2. The table does not give the label of every record. \<^verbatim>\<open>parse_response\<close>
  keeps the reasoning as the decoded answer has it, so an answer with
  \<^verbatim>\<open>"razonamiento": null\<close> and one classification leaves a record whose reasoning is
  \<^verbatim>\<open>None\<close> and whose raw response decodes and has an item. The reasoning holds no
  marker, so the table gives Perfect for the record; \<^verbatim>\<open>classify_record\<close> raises
  \<^verbatim>\<open>AttributeError\<close> on it, at \<^verbatim>\<open>razonamiento.lower()\<close>.
\<close>

theorem classify_record_null_reasoning:
  \<open>py_item (process_single_case kb_example cfg3 json_loads w_null case_A) ''razonamiento_modelo'' =
     Inr JNull \<and>
   py_item (process_single_case kb_example cfg3 json_loads w_null case_A) ''raw_response'' =
     Inr (JStr ''{"razonamiento": null, "clasificaciones": [{"codigo": "9", "justificacion": "j"}]}'') \<and>
   valid_json json_loads
     ''{"razonamiento": null, "clasificaciones": [{"codigo": "9", "justificacion": "j"}]}'' \<and>
   with_items json_loads
     ''{"razonamiento": null, "clasificaciones": [{"codigo": "9", "justificacion": "j"}]}'' \<and>
   classify_record json_loads (process_single_case kb_example cfg3 json_loads w_null case_A) =
     Inl (Exn ''AttributeError''
            ([CHR 0x27] @ ''NoneType'' @ [CHR 0x27] @ '' object has no attribute '' @
             [CHR 0x27] @ ''lower'' @ [CHR 0x27]))\<close>
  by code_simp

subsection \<open>The response parser\<close>

lemma tiers_truncated_text:
  \<open>tier3 (tier2 [] ''{"codigo": "9", "justificacion": "robo de celu'')
      ''{"codigo": "9", "justificacion": "robo de celu'' =
    [(''9'', JStr ''robo de celu [TRUNCADO]'')]\<close>
  by code_simp

lemma json_loads_truncated_text:
  \<open>json_loads ''{"codigo": "9", "justificacion": "robo de celu'' = None\<close>
  by code_simp

text \<open>
  Claim C5. On the text \<^verbatim>\<open>{"codigo": "9", "justificacion": "robo de celu\<close>, which no
  JSON decoder accepts, \<^verbatim>\<open>parse_detailed_predictions\<close> returns a dict with the single
  key \<^verbatim>\<open>9\<close>, whose justification is the partial text followed by the marker
  \<^verbatim>\<open> [TRUNCADO]\<close>.
\<close>

theorem parse_detailed_predictions_truncated:
  assumes \<open>loads ''{"codigo": "9", "justificacion": "robo de celu'' = None\<close>
  shows \<open>parse_detailed_predictions loads (JStr ''{"codigo": "9", "justificacion": "robo de celu'') =
    Inr [(''9'', JStr (''robo de celu'' @ '' [TRUNCADO]''))]\<close>
  using assms by (simp add: parse_detailed_predictions_def tiers_truncated_text)

theorem parse_detailed_predictions_truncated_witness:
  \<open>parse_detailed_predictions json_loads (JStr ''{"codigo": "9", "justificacion": "robo de celu'') =
    Inr [(''9'', JStr ''robo de celu [TRUNCADO]'')]\<close>
  using parse_detailed_predictions_truncated [of json_loads] json_loads_truncated_text by simp

subsection \<open>The request executor\<close>

lemma attempts_trace:
  assumes "\<forall>j. k \<le> j \<and> j < i \<longrightarrow>
             (\<exists>e. bindE (endpoint w sp up j (timeout cfg + int j * 30)) py_strip = Inl e)"
    and "k \<le> i" and "i < n" and "int n \<le> max_retries cfg"
  shows "snd (attempts cfg w sp up [k..<n]) ! (2 * (i - k)) = Request i (timeout cfg + int i * 30) \<and>
         (\<forall>e. bindE (endpoint w sp up i (timeout cfg + int i * 30)) py_strip = Inl e \<and>
               int i < max_retries cfg - 1 \<longrightarrow>
               snd (attempts cfg w sp up [k..<n]) ! (2 * (i - k) + 1) =
                 Sleep (wait_time cfg (random w i) i e))"
  using assms
proof (induction "i - k" arbitrary: k)
  case 0
  then have ik: "i = k" by simp
  have up: "[k..<n] = k # [Suc k..<n]" using 0 ik by (simp add: upt_rec)
  show ?case unfolding up ik
    by (auto simp: Let_def split: sum.splits)
next
  case (Suc d)
  then have lt: "k < i" by simp
  then have kn: "k < n" using Suc.prems by simp
  have up: "[k..<n] = k # [Suc k..<n]" using kn by (simp add: upt_rec)
  obtain e where e: "bindE (endpoint w sp up k (timeout cfg + int k * 30)) py_strip = Inl e"
    using Suc.prems(1) lt by auto
  have nonfinal: "int k < max_retries cfg - 1" using lt Suc.prems by linarith
  have d: "d = i - Suc k" using Suc.hyps by simp
  have IH: "snd (attempts cfg w sp up [Suc k..<n]) ! (2 * (i - Suc k)) = Request i (timeout cfg + int i * 30) \<and>
         (\<forall>e. bindE (endpoint w sp up i (timeout cfg + int i * 30)) py_strip = Inl e \<and>
               int i < max_retries cfg - 1 \<longrightarrow>
               snd (attempts cfg w sp up [Suc k..<n]) ! (2 * (i - Suc k) + 1) =
                 Sleep (wait_time cfg (random w i) i e))"
    using Suc.hyps(1)[OF d] Suc.prems lt by auto
  have idx: "2 * (i - k) = Suc (Suc (2 * (i - Suc k)))" using lt by simp
  show ?case unfolding up idx using e nonfinal IH
    by (simp add: Let_def)
qed


lemma wait_time_cases:
  assumes "0 \<le> u" and "u < 1"
  shows "\<exists>jitter. 0 \<le> jitter \<and> jitter \<le> real i * 0.5 \<and>
     (rate_limit_error e \<longrightarrow> wait_time cfg u i e = real_of_int (retry_delay cfg + int i * 15)) \<and>
     (\<not> rate_limit_error e \<and> timeout_error e \<longrightarrow> wait_time cfg u i e = 2 ^ (i + 1) + jitter) \<and>
     (\<not> rate_limit_error e \<and> \<not> timeout_error e \<and> network_error e \<longrightarrow>
        wait_time cfg u i e = 2 * 2 ^ (i + 1) + jitter) \<and>
     (\<not> rate_limit_error e \<and> \<not> timeout_error e \<and> \<not> network_error e \<longrightarrow>
        wait_time cfg u i e = 2 ^ (i + 1) + jitter)"
proof -
  let ?j = "real i * 0.5 * u"
  have "0 \<le> ?j" using assms by simp
  moreover have "?j \<le> real i * 0.5"
  proof -
    have "real i * 0.5 * u \<le> real i * 0.5 * 1"
      using assms by (intro mult_left_mono) auto
    then show ?thesis by simp
  qed
  ultimately show ?thesis
    by (intro exI[of _ ?j]) (simp add: wait_time_def Let_def)
qed

lemma net_class:
  "\<not> rate_limit_error (Exn ''APIConnectionError'' ''Connection error.'') \<and>
   \<not> timeout_error (Exn ''APIConnectionError'' ''Connection error.'') \<and>
   network_error (Exn ''APIConnectionError'' ''Connection error.'')"
  by code_simp

text \<open>
  Claim C6. Let attempt \<open>i\<close> of \<^verbatim>\<open>generate_prediction_api\<close> be reached, every earlier
  attempt having failed. Its request carries the timeout \<^verbatim>\<open>base_timeout + i * 30\<close>. If
  it fails and is not the last, the sleep that follows lasts: the configured retry
  delay plus \<^verbatim>\<open>i * 15\<close> for a rate limit; \<^verbatim>\<open>2 ^ (i + 1)\<close> plus a jitter in
  \<^verbatim>\<open>[0, i * 0.5]\<close> for a timeout and for an error of no class; twice \<^verbatim>\<open>2 ^ (i + 1)\<close>
  plus that jitter for a network error. The classes are tested in this order, so an
  error is a timeout only if it is no rate limit, and a network error only if it is
  neither. The request of attempt \<open>i\<close> is event \<open>2 * i\<close> of the trace, the sleep is
  event \<open>2 * i + 1\<close>.
\<close>

theorem retry_timing_policy:
  assumes "i < nat (max_retries cfg)"
    and "\<forall>j<i. \<exists>e. bindE (endpoint w sp up j (timeout cfg + int j * 30)) py_strip = Inl e"
    and "0 \<le> random w i" and "random w i < 1"
  shows "snd (generate_prediction_api cfg w sp up) ! (2 * i) = Request i (timeout cfg + int i * 30) \<and>
    (\<forall>e. bindE (endpoint w sp up i (timeout cfg + int i * 30)) py_strip = Inl e \<and>
          int i < max_retries cfg - 1 \<longrightarrow>
       (\<exists>wait jitter. snd (generate_prediction_api cfg w sp up) ! (2 * i + 1) = Sleep wait \<and>
          0 \<le> jitter \<and> jitter \<le> real i * 0.5 \<and>
          (rate_limit_error e \<longrightarrow> wait = real_of_int (retry_delay cfg + int i * 15)) \<and>
          (\<not> rate_limit_error e \<and> timeout_error e \<longrightarrow> wait = 2 ^ (i + 1) + jitter) \<and>
          (\<not> rate_limit_error e \<and> \<not> timeout_error e \<and> network_error e \<longrightarrow>
             wait = 2 * 2 ^ (i + 1) + jitter) \<and>
          (\<not> rate_limit_error e \<and> \<not> timeout_error e \<and> \<not> network_error e \<longrightarrow>
             wait = 2 ^ (i + 1) + jitter)))"
proof -
  have tr: "snd (attempts cfg w sp up [0..<nat (max_retries cfg)]) ! (2 * (i - 0)) =
           Request i (timeout cfg + int i * 30) \<and>
         (\<forall>e. bindE (endpoint w sp up i (timeout cfg + int i * 30)) py_strip = Inl e \<and>
               int i < max_retries cfg - 1 \<longrightarrow>
               snd (attempts cfg w sp up [0..<nat (max_retries cfg)]) ! (2 * (i - 0) + 1) =
                 Sleep (wait_time cfg (random w i) i e))"
    using assms(1,2) by (intro attempts_trace) auto
  show ?thesis
  proof (intro conjI allI impI)
    show "snd (generate_prediction_api cfg w sp up) ! (2 * i) = Request i (timeout cfg + int i * 30)"
      using tr by (simp add: generate_prediction_api_def)
  next
    fix e
    assume a: "bindE (endpoint w sp up i (timeout cfg + int i * 30)) py_strip = Inl e \<and>
          int i < max_retries cfg - 1"
    then have s: "snd (generate_prediction_api cfg w sp up) ! (2 * i + 1) =
        Sleep (wait_time cfg (random w i) i e)"
      using tr by (simp add: generate_prediction_api_def)
    from wait_time_cases[OF assms(3,4), of i e cfg] obtain jitter where
      j: "0 \<le> jitter" "jitter \<le> real i * 0.5"
        "rate_limit_error e \<longrightarrow> wait_time cfg (random w i) i e = real_of_int (retry_delay cfg + int i * 15)"
        "\<not> rate_limit_error e \<and> timeout_error e \<longrightarrow> wait_time cfg (random w i) i e = 2 ^ (i + 1) + jitter"
        "\<not> rate_limit_error e \<and> \<not> timeout_error e \<and> network_error e \<longrightarrow>
           wait_time cfg (random w i) i e = 2 * 2 ^ (i + 1) + jitter"
        "\<not> rate_limit_error e \<and> \<not> timeout_error e \<and> \<not> network_error e \<longrightarrow>
           wait_time cfg (random w i) i e = 2 ^ (i + 1) + jitter"
      by blast
    show "\<exists>wait jitter. snd (generate_prediction_api cfg w sp up) ! (2 * i + 1) = Sleep wait \<and>
          0 \<le> jitter \<and> jitter \<le> real i * 0.5 \<and>
          (rate_limit_error e \<longrightarrow> wait = real_of_int (retry_delay cfg + int i * 15)) \<and>
          (\<not> rate_limit_error e \<and> timeout_error e \<longrightarrow> wait = 2 ^ (i + 1) + jitter) \<and>
          (\<not> rate_limit_error e \<and> \<not> timeout_error e \<and> network_error e \<longrightarrow>
             wait = 2 * 2 ^ (i + 1) + jitter) \<and>
          (\<not> rate_limit_error e \<and> \<not> timeout_error e \<and> \<not> network_error e \<longrightarrow>
             wait = 2 ^ (i + 1) + jitter)"
      using s j by (intro exI[of _ "wait_time cfg (random w i) i e"] exI[of _ jitter]) simp
  qed
qed

theorem retry_timing_policy_witness:
  "snd (generate_prediction_api cfg3 w_net [] []) ! 2 = Request 1 120 \<and>
   snd (generate_prediction_api cfg3 w_net [] []) ! 3 = Sleep (33 / 4)"
proof -
  have h: "snd (generate_prediction_api cfg3 w_net [] []) ! (2 * 1) = Request 1 (timeout cfg3 + int 1 * 30) \<and>
    (\<forall>e. bindE (endpoint w_net [] [] 1 (timeout cfg3 + int 1 * 30)) py_strip = Inl e \<and>
          int 1 < max_retries cfg3 - 1 \<longrightarrow>
       (\<exists>wait jitter. snd (generate_prediction_api cfg3 w_net [] []) ! (2 * 1 + 1) = Sleep wait \<and>
          0 \<le> jitter \<and> jitter \<le> real 1 * 0.5 \<and>
          (rate_limit_error e \<longrightarrow> wait = real_of_int (retry_delay cfg3 + int 1 * 15)) \<and>
          (\<not> rate_limit_error e \<and> timeout_error e \<longrightarrow> wait = 2 ^ (1 + 1) + jitter) \<and>
          (\<not> rate_limit_error e \<and> \<not> timeout_error e \<and> network_error e \<longrightarrow>
             wait = 2 * 2 ^ (1 + 1) + jitter) \<and>
          (\<not> rate_limit_error e \<and> \<not> timeout_error e \<and> \<not> network_error e \<longrightarrow>
             wait = 2 ^ (1 + 1) + jitter)))"
    by (rule retry_timing_policy) (simp_all add: cfg3_def w_net_def)
  have r: "snd (generate_prediction_api cfg3 w_net [] []) ! 2 = Request 1 120"
    using h by (simp add: cfg3_def)
  have s: "snd (generate_prediction_api cfg3 w_net [] []) ! 3 = Sleep (33 / 4)"
    by (simp add: generate_prediction_api_def cfg3_def w_net_def upt_rec wait_time_def Let_def net_class
        numeral_3_eq_3)
  show ?thesis using r s by simp
qed


lemma wait_time_rate_limit:
  "rate_limit_error e \<Longrightarrow> wait_time cfg u i e = real_of_int (retry_delay cfg + int i * 15)"
  by (simp add: wait_time_def Let_def)

lemma final_sentinel_decoded:
  "json_loads final_sentinel =
     Some (JObj [(''razonamiento'',
                  JStr (''ERROR: M'' @ [CHR 0xE1] @ ''ximo de reintentos alcanzado despu'' @
                        [CHR 0xE9] @ ''s de m'' @ [CHR 0xFA] @
                        ''ltiples intentos con timeout incremental'')),
                 (''clasificaciones'', JArr [])])"
  by code_simp

lemma rate_class: "rate_limit_error (Exn ''RateLimitError'' ''Error code: 429'')"
  by code_simp

text \<open>
  Claim C4. With \<^verbatim>\<open>max_retries = 3\<close> and an endpoint that raises a rate-limit error
  at every call, \<^verbatim>\<open>generate_prediction_api\<close> makes exactly three requests, sleeps
  after the first two, and returns the terminal sentinel text instead of raising; the
  sentinel decodes to a JSON object whose \<^verbatim>\<open>razonamiento\<close> starts with \<^verbatim>\<open>ERROR\<close> and
  whose \<^verbatim>\<open>clasificaciones\<close> is empty.
\<close>

theorem retry_termination:
  assumes "max_retries cfg = 3"
    and "\<forall>i t. \<exists>e. endpoint w sp up i t = Inl e \<and> rate_limit_error e"
  shows "generate_prediction_api cfg w sp up =
     (final_sentinel,
      [Request 0 (timeout cfg), Sleep (real_of_int (retry_delay cfg)),
       Request 1 (timeout cfg + 30), Sleep (real_of_int (retry_delay cfg + 15)),
       Request 2 (timeout cfg + 60)]) \<and>
     (\<exists>r. json_loads final_sentinel =
            Some (JObj [(''razonamiento'', JStr r), (''clasificaciones'', JArr [])]) \<and>
          starts_with ''ERROR'' r)"
proof -
  obtain e0 where e0: "endpoint w sp up 0 (timeout cfg) = Inl e0" "rate_limit_error e0"
    using assms(2) by blast
  obtain e1 where e1: "endpoint w sp up 1 (timeout cfg + 30) = Inl e1" "rate_limit_error e1"
    using assms(2) by blast
  obtain e2 where e2: "endpoint w sp up 2 (timeout cfg + 60) = Inl e2" "rate_limit_error e2"
    using assms(2) by blast
  have l: "[0..<nat (max_retries cfg)] = [0, 1, 2]"
    using assms(1) by (simp add: upt_rec numeral_3_eq_3)
  have run: "generate_prediction_api cfg w sp up =
     (final_sentinel,
      [Request 0 (timeout cfg), Sleep (real_of_int (retry_delay cfg)),
       Request 1 (timeout cfg + 30), Sleep (real_of_int (retry_delay cfg + 15)),
       Request 2 (timeout cfg + 60)])"
    unfolding generate_prediction_api_def l
    using e0 e1 e2 assms(1) by (simp add: Let_def wait_time_rate_limit)
  show ?thesis
    using run final_sentinel_decoded by simp
qed

theorem retry_termination_witness:
  "generate_prediction_api cfg3 w_rate [] [] =
     (final_sentinel, [Request 0 90, Sleep 60, Request 1 120, Sleep 75, Request 2 150])"
  using retry_termination [of cfg3 w_rate "[]" "[]"] rate_class
  by (simp add: cfg3_def w_rate_def)


subsection \<open>The tiers of the response parser\<close>

lemma sset_absent: "sget d k = None \<Longrightarrow> sset d k v = d @ [(k, v)]"
  by (induction d) (auto split: if_splits)

lemma tier3_cases:
  "tier3 d s = d \<or>
   (\<exists>code just. sget d code = None \<and> tier3 d s = d @ [(code, JStr (just @ '' [TRUNCADO]''))])"
  by (auto simp: tier3_def Let_def sset_absent split: option.splits)

lemma sget_append_absent: "sget d k = Some v \<Longrightarrow> sget (d @ e) k = Some v"
  by (induction d) (auto split: if_splits)

lemma tier3_keeps: "sget d k = Some v \<Longrightarrow> sget (tier3 d s) k = Some v"
  using tier3_cases[of d s] by (auto simp: sget_append_absent)

lemma loads_complete_example:
  \<open>json_loads ''{"razonamiento": "r", "clasificaciones": [{"codigo": "9", "justificacion": "j"}]}'' =
    Some (JObj [(''razonamiento'', JStr ''r''),
      (''clasificaciones'', JArr [JObj [(''codigo'', JStr ''9''), (''justificacion'', JStr ''j'')]])])\<close>
  by code_simp

text \<open>
  Claim C8, as amended. For a raw response that is a non-empty str: if the text
  decodes and the decoded value has the key \<^verbatim>\<open>clasificaciones\<close>, the result is that of
  tier 1 alone, and tiers 2 and 3 do not run. Otherwise tier 2 and tier 3 both run,
  tier 3 after tier 2 whatever tier 2 found: every entry of tier 2 stays as it is, and
  tier 3 adds at most one entry, marked as truncated, under a code that tier 2 did
  not extract.
\<close>

theorem parser_tier_gating:
  assumes "s \<noteq> []"
  shows "(\<forall>parsed_json. loads s = Some parsed_json \<and> py_in ''clasificaciones'' parsed_json = Inr True \<longrightarrow>
            parse_detailed_predictions loads (JStr s) = tier1 parsed_json) \<and>
         (loads s = None \<or> (\<exists>parsed_json. loads s = Some parsed_json \<and>
              py_in ''clasificaciones'' parsed_json = Inr False) \<longrightarrow>
            parse_detailed_predictions loads (JStr s) = Inr (tier3 (tier2 [] s) s) \<and>
            (\<forall>code v. sget (tier2 [] s) code = Some v \<longrightarrow> sget (tier3 (tier2 [] s) s) code = Some v) \<and>
            (tier3 (tier2 [] s) s = tier2 [] s \<or>
             (\<exists>code just. sget (tier2 [] s) code = None \<and>
                tier3 (tier2 [] s) s = tier2 [] s @ [(code, JStr (just @ '' [TRUNCADO]''))])))"
proof -
  have one: "\<forall>parsed_json. loads s = Some parsed_json \<and> py_in ''clasificaciones'' parsed_json = Inr True \<longrightarrow>
            parse_detailed_predictions loads (JStr s) = tier1 parsed_json"
    using assms by (simp add: parse_detailed_predictions_def)
  have two: "loads s = None \<or> (\<exists>parsed_json. loads s = Some parsed_json \<and>
              py_in ''clasificaciones'' parsed_json = Inr False) \<longrightarrow>
            parse_detailed_predictions loads (JStr s) = Inr (tier3 (tier2 [] s) s)"
    using assms by (auto simp: parse_detailed_predictions_def)
  have keeps: "\<forall>code v. sget (tier2 [] s) code = Some v \<longrightarrow> sget (tier3 (tier2 [] s) s) code = Some v"
    by (simp add: tier3_keeps)
  show ?thesis
    using one two keeps tier3_cases[of "tier2 [] s" s] by blast
qed

theorem parser_tier_gating_witness:
  \<open>parse_detailed_predictions json_loads
     (JStr ''{"razonamiento": "r", "clasificaciones": [{"codigo": "9", "justificacion": "j"}]}'') =
   Inr [(''9'', JStr ''j'')]\<close>
proof -
  have t: "tier1 (JObj [(''razonamiento'', JStr ''r''),
      (''clasificaciones'', JArr [JObj [(''codigo'', JStr ''9''), (''justificacion'', JStr ''j'')]])]) =
      Inr [(''9'', JStr ''j'')]"
    by code_simp
  show ?thesis
    using parser_tier_gating [of \<open>''{"razonamiento": "r", "clasificaciones": [{"codigo": "9", "justificacion": "j"}]}''\<close> json_loads]
      loads_complete_example t
    by simp
qed

text \<open>
  The claim as first stated fails: on the text below tier 2 extracts the entry for
  code 1, and tier 3 still adds the truncated entry for code 2.
\<close>

theorem parser_tier_gating_counterexample:
  \<open>tier2 [] ''{"codigo": "1", "justificacion": "a"} {"codigo": "2", "justificacion": "b'' =
     [(''1'', JStr ''a'')] \<and>
   parse_detailed_predictions json_loads
     (JStr ''{"codigo": "1", "justificacion": "a"} {"codigo": "2", "justificacion": "b'') =
     Inr [(''1'', JStr ''a''), (''2'', JStr ''b [TRUNCADO]'')]\<close>
  by code_simp


subsection \<open>The consolidator\<close>

lemma py_eq_sym: "py_eq a b \<Longrightarrow> py_eq b a"
  by (cases a; cases b) (auto split: if_splits)

lemma py_eq_trans: "py_eq a b \<Longrightarrow> py_eq b c \<Longrightarrow> py_eq a c"
  by (cases a; cases b; cases c) (auto split: if_splits)

lemma dict_get_set:
  "dict_get py_eq (dict_set py_eq d k v) x = (if py_eq k x then Some v else dict_get py_eq d x)"
proof (induction d)
  case Nil
  then show ?case by simp
next
  case (Cons a d)
  obtain k' v' where a: "a = (k', v')" by (cases a)
  show ?case
  proof (cases "py_eq k' k")
    case True
    then show ?thesis
      using a py_eq_trans[of k' k x] py_eq_trans[of k k' x] py_eq_sym[of k' k] by auto
  next
    case False
    then show ?thesis
      using a Cons.IH py_eq_trans[of k' x k] py_eq_sym[of k x] by auto
  qed
qed

lemma load_line_unified:
  "unified_data (load_line loads st line) =
     (case line_entry loads line of
        None \<Rightarrow> unified_data st
      | Some kr \<Rightarrow> dict_set py_eq (unified_data st) (fst kr) (snd kr))"
  by (auto simp: load_line_def line_entry_def split: option.splits sum.splits)

lemma last_entry_Nil: "last_entry loads X [] = None"
  by (simp add: last_entry_def map_filter_simps)

lemma map_filter_app: "List.map_filter f (xs @ ys) = List.map_filter f xs @ List.map_filter f ys"
  by (simp add: List.map_filter_def)

lemma last_entry_alt:
  "last_entry loads X ls =
     (if filter (\<lambda>kr. py_eq (fst kr) X) (List.map_filter (line_entry loads) ls) = [] then None
      else Some (snd (last (filter (\<lambda>kr. py_eq (fst kr) X) (List.map_filter (line_entry loads) ls)))))"
  by (simp add: last_entry_def split: list.splits)

lemma last_entry_snoc:
  "last_entry loads X (ls @ [l]) =
     (case line_entry loads l of
        None \<Rightarrow> last_entry loads X ls
      | Some kr \<Rightarrow> if py_eq (fst kr) X then Some (snd kr) else last_entry loads X ls)"
  by (simp add: last_entry_alt map_filter_app map_filter_simps split: option.splits)

lemma load_lines_lookup:
  "dict_get py_eq (unified_data (foldl (load_line loads) st ls)) X =
     (case last_entry loads X ls of
        Some p \<Rightarrow> Some p
      | None \<Rightarrow> dict_get py_eq (unified_data st) X)"
proof (induction ls rule: rev_induct)
  case Nil
  then show ?case by (simp add: last_entry_Nil)
next
  case (snoc l ls)
  show ?case
    by (simp add: load_line_unified last_entry_snoc dict_get_set snoc.IH split: option.splits)
qed

lemma last_entry_append:
  "last_entry loads X (a @ b) =
     (case last_entry loads X b of Some p \<Rightarrow> Some p | None \<Rightarrow> last_entry loads X a)"
proof (induction b rule: rev_induct)
  case Nil
  then show ?case by (simp add: last_entry_Nil)
next
  case (snoc l b)
  have "last_entry loads X (a @ b @ [l]) = last_entry loads X ((a @ b) @ [l])" by simp
  also have "\<dots> = (case line_entry loads l of
        None \<Rightarrow> last_entry loads X (a @ b)
      | Some kr \<Rightarrow> if py_eq (fst kr) X then Some (snd kr) else last_entry loads X (a @ b))"
    by (rule last_entry_snoc)
  finally show ?case
    by (simp add: snoc.IH last_entry_snoc split: option.splits)
qed

lemma foldl_load_file:
  "foldl (load_file loads) st fs = foldl (load_line loads) st (concat (map snd fs))"
  by (induction fs arbitrary: st) (simp_all add: load_file_def)

lemma last_entry_concat_none:
  "\<forall>f\<in>set post. last_entry loads X (snd f) = None \<Longrightarrow>
   last_entry loads X (concat (map snd post)) = None"
  by (induction post) (simp_all add: last_entry_Nil last_entry_append)

lemma last_entry_files:
  assumes "last_entry loads X (snd f2) = Some p2"
    and "\<forall>f\<in>set post. last_entry loads X (snd f) = None"
  shows "last_entry loads X (concat (map snd (pre @ f2 # post))) = Some p2"
  using assms by (simp add: last_entry_append last_entry_concat_none)

lemma scan_patterns_first:
  "scan_patterns dir [] ps \<noteq> [] \<Longrightarrow>
   \<exists>i<length ps. (\<forall>j<i. glob dir (ps ! j) = []) \<and> glob dir (ps ! i) \<noteq> [] \<and>
     scan_patterns dir [] ps = glob dir (ps ! i)"
proof (induction ps)
  case Nil
  then show ?case by simp
next
  case (Cons p ps)
  show ?case
  proof (cases "glob dir p = []")
    case False
    then have "scan_patterns dir [] (p # ps) = glob dir p" by (simp add: Let_def)
    with False show ?thesis by (intro exI[of _ 0]) simp
  next
    case True
    then have eq: "scan_patterns dir [] (p # ps) = scan_patterns dir [] ps" by (simp add: Let_def)
    with Cons.prems have "scan_patterns dir [] ps \<noteq> []" by simp
    from Cons.IH[OF this] obtain i where i: "i < length ps" "\<forall>j<i. glob dir (ps ! j) = []"
      "glob dir (ps ! i) \<noteq> []" "scan_patterns dir [] ps = glob dir (ps ! i)" by blast
    have "\<forall>j<Suc i. glob dir ((p # ps) ! j) = []"
      using i(2) True by (auto simp: less_Suc_eq_0_disj)
    with i eq show ?thesis by (intro exI[of _ "Suc i"]) simp
  qed
qed

lemma find_batch_files_sorted:
  assumes "find_batch_files dir = Inr fs"
  shows "\<exists>i<length patterns. (\<forall>j<i. glob dir (patterns ! j) = []) \<and> glob dir (patterns ! i) \<noteq> [] \<and>
     fs = sort_key fst (glob dir (patterns ! i))"
proof -
  have ne: "scan_patterns dir [] patterns \<noteq> []" and fs: "fs = sort_key fst (scan_patterns dir [] patterns)"
    using assms by (auto simp: find_batch_files_def Let_def split: if_splits)
  from scan_patterns_first[OF ne] fs show ?thesis by auto
qed

lemma load_batch_files_fold:
  "find_batch_files dir = Inr fs \<Longrightarrow>
   load_batch_files loads dir = Inr (foldl (load_line loads) initial_load_state (concat (map snd fs)))"
  by (simp add: load_batch_files_def foldl_load_file)


lemma later_files_greater:
  assumes "distinct (map fst dir)" and "find_batch_files dir = Inr (pre @ f2 # post)"
    and "f \<in> set post"
  shows "fst f2 < fst f"
proof -
  from find_batch_files_sorted[OF assms(2)] obtain p where
    fs: "pre @ f2 # post = sort_key fst (glob dir p)" by blast
  have srt: "sorted (map fst (pre @ f2 # post))" unfolding fs by (rule sorted_sort_key)
  have "distinct (glob dir p)" using assms(1) by (simp add: glob_def distinct_map)
  then have dst: "distinct (pre @ f2 # post)" unfolding fs by simp
  have sub: "set (pre @ f2 # post) \<subseteq> set dir" unfolding fs by (auto simp: glob_def)
  have inj: "inj_on fst (set dir)" using assms(1) by (simp add: distinct_map)
  have le: "fst f2 \<le> fst f" using srt assms(3) by (auto simp: sorted_append)
  have "f \<noteq> f2" using dst assms(3) by auto
  moreover have "f \<in> set dir" "f2 \<in> set dir" using sub assms(3) by auto
  ultimately have "fst f \<noteq> fst f2" using inj by (auto dest: inj_onD)
  with le show ?thesis by simp
qed

lemma dir_two_found:
  \<open>find_batch_files dir_two =
     Inr [(''resultados_lote_1_20250101_0900.jsonl'',
            [''{"id": "X", "predicted_codes": ["9"]}'', ''{"id": "Y", "predicted_codes": []}'']),
          (''resultados_lote_1_20250102_0900.jsonl'', [''{"id": "X", "predicted_codes": ["21"]}''])]\<close>
  by code_simp

lemma dir_two_first:
  \<open>last_entry json_loads (JStr ''X'')
      [''{"id": "X", "predicted_codes": ["9"]}'', ''{"id": "Y", "predicted_codes": []}''] =
    Some (JObj [(''id'', JStr ''X''), (''predicted_codes'', JArr [JStr ''9''])])\<close>
  by code_simp

lemma dir_two_second:
  \<open>last_entry json_loads (JStr ''X'') [''{"id": "X", "predicted_codes": ["21"]}''] =
    Some (JObj [(''id'', JStr ''X''), (''predicted_codes'', JArr [JStr ''21''])])\<close>
  by code_simp

lemma dir_two_names:
  "distinct (map fst dir_two) \<and>
   ''resultados_lote_1_20250101_0900.jsonl'' < ''resultados_lote_1_20250102_0900.jsonl''"
  by code_simp

text \<open>
  Claim C3, as amended. Let the names of the directory be distinct, and let \<open>f1\<close> and
  \<open>f2\<close> be two of the files that \<^verbatim>\<open>find_batch_files\<close> returns, \<open>f1\<close> before \<open>f2\<close>
  in the order of the names, each holding a record stored under the identifier \<open>X\<close>.
  If no returned file after \<open>f2\<close> holds such a record, the dict that
  \<^verbatim>\<open>load_batch_files\<close> returns maps \<open>X\<close> to the record from \<open>f2\<close>, the last one there
  under \<open>X\<close>.
\<close>

theorem load_batch_files_last_write_wins:
  assumes "distinct (map fst dir)"
    and "find_batch_files dir = Inr fs"
    and "f1 \<in> set fs" and "f2 \<in> set fs" and "fst f1 < fst f2"
    and "last_entry loads X (snd f1) = Some p1"
    and "last_entry loads X (snd f2) = Some p2"
    and "\<forall>f\<in>set fs. fst f2 < fst f \<longrightarrow> last_entry loads X (snd f) = None"
  shows "\<exists>st. load_batch_files loads dir = Inr st \<and>
              dict_get py_eq (unified_data st) X = Some p2"
proof -
  from assms(4) obtain pre post where split: "fs = pre @ f2 # post"
    by (auto simp: in_set_conv_decomp)
  have "\<forall>f\<in>set post. last_entry loads X (snd f) = None"
  proof
    fix f assume f: "f \<in> set post"
    then have "fst f2 < fst f"
      using later_files_greater[OF assms(1)] assms(2) split by blast
    moreover have "f \<in> set fs" using f split by simp
    ultimately show "last_entry loads X (snd f) = None" using assms(8) by blast
  qed
  then have "last_entry loads X (concat (map snd fs)) = Some p2"
    unfolding split using assms(7) by (rule last_entry_files[rotated])
  then have "dict_get py_eq (unified_data (foldl (load_line loads) initial_load_state (concat (map snd fs)))) X = Some p2"
    by (simp add: load_lines_lookup)
  then show ?thesis
    using load_batch_files_fold[OF assms(2), of loads] by simp
qed

theorem load_batch_files_last_write_wins_witness:
  "\<exists>st. load_batch_files json_loads dir_two = Inr st \<and>
        dict_get py_eq (unified_data st) (JStr ''X'') =
          Some (JObj [(''id'', JStr ''X''), (''predicted_codes'', JArr [JStr ''21''])])"
proof -
  let ?f1 = \<open>(''resultados_lote_1_20250101_0900.jsonl'',
            [''{"id": "X", "predicted_codes": ["9"]}'', ''{"id": "Y", "predicted_codes": []}''])\<close>
  let ?f2 = \<open>(''resultados_lote_1_20250102_0900.jsonl'', [''{"id": "X", "predicted_codes": ["21"]}''])\<close>
  have h1: "distinct (map fst dir_two)" using dir_two_names by simp
  have h2: "find_batch_files dir_two = Inr [?f1, ?f2]" by (rule dir_two_found)
  have h3: "?f1 \<in> set [?f1, ?f2]" by simp
  have h4: "?f2 \<in> set [?f1, ?f2]" by simp
  have h5: "fst ?f1 < fst ?f2" using dir_two_names by simp
  have h6: "last_entry json_loads (JStr ''X'') (snd ?f1) =
      Some (JObj [(''id'', JStr ''X''), (''predicted_codes'', JArr [JStr ''9''])])"
    using dir_two_first by simp
  have h7: "last_entry json_loads (JStr ''X'') (snd ?f2) =
      Some (JObj [(''id'', JStr ''X''), (''predicted_codes'', JArr [JStr ''21''])])"
    using dir_two_second by simp
  have h8: "\<forall>f\<in>set [?f1, ?f2]. fst ?f2 < fst f \<longrightarrow> last_entry json_loads (JStr ''X'') (snd f) = None"
    using h5 by simp
  show ?thesis
    by (rule load_batch_files_last_write_wins[of dir_two "[?f1, ?f2]" ?f1 ?f2 json_loads "JStr ''X''",
          OF h1 h2 h3 h4 h5 h6 h7 h8])
qed

text \<open>
  The claim as first stated fails twice. In \<open>dir_mixed\<close> both files carry a known
  naming pattern and both hold a record for \<^verbatim>\<open>X\<close>, yet only the first file is read
  and its record stays. In \<open>dir_three\<close> the record of the second file is overwritten
  by that of the third.
\<close>

theorem load_batch_files_last_write_wins_counterexample:
  \<open>find_batch_files dir_mixed =
     Inr [(''resultados_lote_1.jsonl'', [''{"id": "X", "predicted_codes": ["9"]}''])] \<and>
   glob_match ''resultados_*_lote_*.jsonl'' ''resultados_x_lote_1.jsonl'' \<and>
   ''resultados_lote_1.jsonl'' < ''resultados_x_lote_1.jsonl'' \<and>
   load_batch_files json_loads dir_mixed =
     Inr \<lparr>unified_data =
            [(JStr ''X'', JObj [(''id'', JStr ''X''), (''predicted_codes'', JArr [JStr ''9''])])],
          json_decode_errors = 0, general_parse_errors = 0, skipped_no_id = 0\<rparr> \<and>
   load_batch_files json_loads dir_three =
     Inr \<lparr>unified_data =
            [(JStr ''X'', JObj [(''id'', JStr ''X''), (''predicted_codes'', JArr [])])],
          json_decode_errors = 0, general_parse_errors = 0, skipped_no_id = 0\<rparr>\<close>
  by code_simp

lemma dir_legacy_found:
  \<open>find_batch_files [(''lote_2.jsonl'', [''{"id": "B", "predicted_codes": []}'']),
      (''lote_1.jsonl'', [''{"id": "A", "predicted_codes": ["9"]}''])] =
    Inr [(''lote_1.jsonl'', [''{"id": "A", "predicted_codes": ["9"]}'']),
         (''lote_2.jsonl'', [''{"id": "B", "predicted_codes": []}''])]\<close>
  by code_simp

lemma dir_legacy_loaded:
  \<open>foldl (load_line json_loads) initial_load_state
     (concat (map snd [(''lote_1.jsonl'', [''{"id": "A", "predicted_codes": ["9"]}'']),
         (''lote_2.jsonl'', [''{"id": "B", "predicted_codes": []}''])])) =
   \<lparr>unified_data =
      [(JStr ''A'', JObj [(''id'', JStr ''A''), (''predicted_codes'', JArr [JStr ''9''])]),
       (JStr ''B'', JObj [(''id'', JStr ''B''), (''predicted_codes'', JArr [])])],
    json_decode_errors = 0, general_parse_errors = 0, skipped_no_id = 0\<rparr>\<close>
  by code_simp

text \<open>
  Claim C7, as amended. When \<^verbatim>\<open>find_batch_files\<close> returns, the files it returns are
  those matching the first pattern of the list that matches any file, sorted by name,
  and \<^verbatim>\<open>load_batch_files\<close> passes every line of every one of them, in that order, to
  the unification. Files that match only a later pattern are not read.
\<close>

theorem load_batch_files_first_pattern:
  assumes "find_batch_files dir = Inr fs"
  shows "\<exists>i<length patterns.
           (\<forall>j<i. glob dir (patterns ! j) = []) \<and>
           glob dir (patterns ! i) \<noteq> [] \<and>
           fs = sort_key fst (glob dir (patterns ! i)) \<and>
           load_batch_files loads dir =
             Inr (foldl (load_line loads) initial_load_state (concat (map snd fs)))"
  using find_batch_files_sorted[OF assms] load_batch_files_fold[OF assms, of loads] by blast


theorem load_batch_files_first_pattern_witness:
  \<open>load_batch_files json_loads [(''lote_2.jsonl'', [''{"id": "B", "predicted_codes": []}'']),
      (''lote_1.jsonl'', [''{"id": "A", "predicted_codes": ["9"]}''])] =
   Inr \<lparr>unified_data =
      [(JStr ''A'', JObj [(''id'', JStr ''A''), (''predicted_codes'', JArr [JStr ''9''])]),
       (JStr ''B'', JObj [(''id'', JStr ''B''), (''predicted_codes'', JArr [])])],
    json_decode_errors = 0, general_parse_errors = 0, skipped_no_id = 0\<rparr>\<close>
  using load_batch_files_first_pattern[OF dir_legacy_found, of json_loads] dir_legacy_loaded
  by auto

text \<open>
  The claim as first stated fails: in \<open>dir_legacy\<close> the file \<^verbatim>\<open>lote_2.jsonl\<close> matches
  the third pattern, and its record \<^verbatim>\<open>B\<close> is not in the unified dict.
\<close>

theorem load_batch_files_first_pattern_counterexample:
  \<open>glob_match ''lote_*.jsonl'' ''lote_2.jsonl'' \<and>
   find_batch_files dir_legacy =
     Inr [(''resultados_lote_1.jsonl'', [''{"id": "A", "predicted_codes": ["9"]}''])] \<and>
   load_batch_files json_loads dir_legacy =
     Inr \<lparr>unified_data =
            [(JStr ''A'', JObj [(''id'', JStr ''A''), (''predicted_codes'', JArr [JStr ''9''])])],
          json_decode_errors = 0, general_parse_errors = 0, skipped_no_id = 0\<rparr>\<close>
  by code_simp


subsection \<open>The flattened format\<close>

lemma bindE_eq_Inr: "(bindE m f = Inr x) = (\<exists>y. m = Inr y \<and> f y = Inr x)"
  by (cases m) auto

lemma unnest_loop_append:
  "unnest_loop mode loads reference acc (pre @ rest) =
     bindE (unnest_loop mode loads reference acc pre) (\<lambda>acc'.
       unnest_loop mode loads reference acc' rest)"
proof (induction pre arbitrary: acc)
  case Nil
  then show ?case by simp
next
  case (Cons a pre)
  obtain k u where a: "a = (k, u)" by (cases a)
  show ?case
  proof (cases "unnest_record mode loads k u (the (dict_get py_eq reference k))")
    case (Inl e)
    then show ?thesis using a Cons.IH by (auto split: option.splits)
  next
    case (Inr new)
    then show ?thesis using a Cons.IH by (auto split: option.splits)
  qed
qed

lemma unnest_loop_skip:
  "dict_get py_eq reference obs_id = None \<Longrightarrow>
   unnest_loop mode loads reference acc (pre @ (obs_id, unified_record) # post) =
   unnest_loop mode loads reference acc (pre @ post)"
  by (simp add: unnest_loop_append)

lemma unnest_record_simple:
  "mode \<noteq> ''complex'' \<Longrightarrow> unnest_record mode loads k u r = Inr new \<Longrightarrow> length (fst new) = 1"
  by (auto simp: unnest_record_def bindE_eq_Inr Let_def)

lemma unnest_loop_simple_count:
  "mode \<noteq> ''complex'' \<Longrightarrow> unnest_loop mode loads reference acc us = Inr acc' \<Longrightarrow>
   length (fst acc') = length (fst acc) +
     length (filter (\<lambda>kr. case dict_get py_eq reference (fst kr) of
                             None \<Rightarrow> False | Some r \<Rightarrow> truthy r) us)"
proof (induction us arbitrary: acc)
  case Nil
  then show ?case by simp
next
  case (Cons a us)
  obtain k u where a: "a = (k, u)" by (cases a)
  show ?case
  proof (cases "dict_get py_eq reference k")
    case None
    then show ?thesis using Cons a by simp
  next
    case (Some r)
    show ?thesis
    proof (cases "truthy r")
      case False
      then show ?thesis using Cons a Some by simp
    next
      case True
      from Cons.prems(2) a Some True obtain new where
        new: "unnest_record mode loads k u r = Inr new"
        and rest: "unnest_loop mode loads reference (fst acc @ fst new, snd acc @ snd new) us = Inr acc'"
        by (auto simp: bindE_eq_Inr)
      have "length (fst new) = 1" using unnest_record_simple[OF Cons.prems(1) new] .
      then show ?thesis
        using Cons.IH[OF Cons.prems(1) rest] a Some True by simp
    qed
  qed
qed

lemma reference_one_lacks_Z: "dict_get py_eq reference_one (JStr ''Z'') = None"
  by code_simp

lemma unnested_A:
  "create_unnested_format ''simple'' json_loads [(JStr ''A'', record_A)] reference_one =
   Inr (1, [],
      [JObj
        [(''id_delito_ia'', JStr ''A''), (''id_observacion'', JStr ''A''),
         (''observacion'', JStr ''robo de celular''),
         (''expected_codes_obs'', JArr [JStr ''9'']),
         (''predicted_codes_obs'', JArr [JStr ''9'']),
         (''razonamiento_general_modelo'', JStr ''r''),
         (''predicciones_detalladas_modelo'', JObj [(''9'', JStr ''j'')]),
         (''timestamp'', JStr ''2025-01-01T00:00:00''),
         (''processing_error'', JBool False)]])"
  by code_simp

text \<open>
  Claim C10. A unified record whose identifier has no entry in the reference map
  adds nothing to what \<^verbatim>\<open>create_unnested_format\<close> returns and writes: with or
  without it the count, the rows, the parsing issues and the exception raised, if any,
  are the same. And outside the mode \<^verbatim>\<open>complex\<close>, where each record with a reference
  gives exactly one row, the count of rows is below the count of unified records as
  soon as the consistency report lists an extra identifier.
\<close>

theorem create_unnested_format_skips_unknown:
  "(dict_get py_eq reference obs_id = None \<longrightarrow>
      create_unnested_format mode loads (pre @ (obs_id, unified_record) # post) reference =
      create_unnested_format mode loads (pre @ post) reference) \<and>
   (mode \<noteq> ''complex'' \<and>
    validate_consistency unified reference = Some (missing, extra) \<and> extra \<noteq> [] \<and>
    create_unnested_format mode loads unified reference = Inr (n, issues, rows) \<longrightarrow>
      n < length unified)"
proof (intro conjI impI)
  assume "dict_get py_eq reference obs_id = None"
  then show "create_unnested_format mode loads (pre @ (obs_id, unified_record) # post) reference =
      create_unnested_format mode loads (pre @ post) reference"
    by (simp add: create_unnested_format_def unnest_loop_skip)
next
  assume a: "mode \<noteq> ''complex'' \<and>
    validate_consistency unified reference = Some (missing, extra) \<and> extra \<noteq> [] \<and>
    create_unnested_format mode loads unified reference = Inr (n, issues, rows)"
  then obtain acc' where acc': "unnest_loop mode loads reference ([], []) unified = Inr acc'"
    and n: "n = length (fst acc')"
    by (auto simp: create_unnested_format_def bindE_eq_Inr)
  have cnt: "n = length (filter (\<lambda>kr. case dict_get py_eq reference (fst kr) of
                             None \<Rightarrow> False | Some r \<Rightarrow> truthy r) unified)"
    using unnest_loop_simple_count[OF _ acc'] a n by simp
  from a have "extra = filter (\<lambda>k. \<not> has_key reference k) (map fst unified)"
    by (auto simp: validate_consistency_def split: if_splits)
  with a obtain k where "k \<in> set (map fst unified)" "\<not> has_key reference k"
    by (metis (mono_tags, lifting) filter_False)
  then obtain kr where kr: "kr \<in> set unified" "dict_get py_eq reference (fst kr) = None"
    by (auto simp: has_key_def)
  then have "length (filter (\<lambda>kr. case dict_get py_eq reference (fst kr) of
                             None \<Rightarrow> False | Some r \<Rightarrow> truthy r) unified) < length unified"
    by (intro length_filter_less[of kr]) auto
  with cnt show "n < length unified" by simp
qed


theorem create_unnested_format_skips_unknown_witness:
  "length [(JStr ''A'', record_A), (JStr ''Z'', record_Z)] = 2 \<and>
   create_unnested_format ''simple'' json_loads
     [(JStr ''A'', record_A), (JStr ''Z'', record_Z)] reference_one =
   Inr (1, [],
      [JObj
        [(''id_delito_ia'', JStr ''A''), (''id_observacion'', JStr ''A''),
         (''observacion'', JStr ''robo de celular''),
         (''expected_codes_obs'', JArr [JStr ''9'']),
         (''predicted_codes_obs'', JArr [JStr ''9'']),
         (''razonamiento_general_modelo'', JStr ''r''),
         (''predicciones_detalladas_modelo'', JObj [(''9'', JStr ''j'')]),
         (''timestamp'', JStr ''2025-01-01T00:00:00''),
         (''processing_error'', JBool False)]]) \<and>
   create_unnested_format ''complex'' json_loads
     [(JStr ''A'', record_A), (JStr ''Z'', record_Z)] reference_one =
   create_unnested_format ''complex'' json_loads [(JStr ''A'', record_A)] reference_one"
  using create_unnested_format_skips_unknown
          [of reference_one "JStr ''Z''" "''simple''" json_loads "[(JStr ''A'', record_A)]" record_Z "[]"]
        create_unnested_format_skips_unknown
          [of reference_one "JStr ''Z''" "''complex''" json_loads "[(JStr ''A'', record_A)]" record_Z "[]"]
        reference_one_lacks_Z unnested_A
  by simp

subsection \<open>The batch file\<close>

text \<open>
  \<^verbatim>\<open>process_single_case\<close> returns a record for every case: the record of the answer
  or, when its body raises, the failure record, both with the identifier of the case.
\<close>

lemma process_single_case_cases:
  "(\<exists>e. try_single_case gvp cfg loads w case_data = Inl e \<and>
        process_single_case gvp cfg loads w case_data = failed_record w case_data e) \<or>
   (\<exists>ms. try_single_case gvp cfg loads w case_data = Inr (JObj ms) \<and>
        process_single_case gvp cfg loads w case_data = JObj ms \<and>
        sget ms ''id'' = Some (dget case_data ''id'' (JStr ''unknown'')) \<and>
        sget ms ''error'' = None)"
proof (cases "try_single_case gvp cfg loads w case_data")
  case (Inl e)
  then show ?thesis by (simp add: process_single_case_def)
next
  case (Inr result)
  then obtain ms where "result = JObj ms"
      "sget ms ''id'' = Some (dget case_data ''id'' (JStr ''unknown''))" "sget ms ''error'' = None"
    by (auto simp: try_single_case_def Let_def bindE_eq_Inr)
  with Inr show ?thesis by (simp add: process_single_case_def)
qed

lemma process_single_case_id:
  "py_item (process_single_case gvp cfg loads w case_data) ''id'' =
     Inr (dget case_data ''id'' (JStr ''unknown''))"
  using process_single_case_cases[of gvp cfg loads w case_data]
  by (auto simp: failed_record_def)

lemma process_single_case_failed:
  "try_single_case gvp cfg loads w case_data = Inl e \<Longrightarrow>
   py_item (process_single_case gvp cfg loads w case_data) ''predicted_codes'' = Inr (JArr []) \<and>
   py_item (process_single_case gvp cfg loads w case_data) ''error'' = Inr (JBool True)"
  by (simp add: process_single_case_def failed_record_def)

text \<open>
  The failure record of a case whose answer is a JSON list: the text of the error is
  that of the interpreter.
\<close>

lemma failed_record_example:
  "process_single_case kb_example cfg3 json_loads w_list case_B =
     JObj [(''id'', JStr ''B''), (''observacion'', JStr ''estafa''),
           (''expected_codes'', JArr [JStr ''21'']),
           (''ids_delito_originales'', JArr [JStr ''B-1'']),
           (''predicted_codes'', JArr []),
           (''razonamiento_modelo'',
            JStr (''Error en procesamiento: '' @ [CHR 0x27] @ ''list'' @ [CHR 0x27] @
                  '' object has no attribute '' @ [CHR 0x27] @ ''get'' @ [CHR 0x27])),
           (''raw_response'', JStr []),
           (''timestamp'', JStr ''2025-01-01T09:00:01''),
           (''error'', JBool True)]"
  by code_simp

text \<open>
  The loop of the writes: all succeed, or the first that raises ends it.
\<close>

lemma write_results_Cons:
  "write_results f_write (result # rest) =
     (case f_write result of
        Inl e \<Rightarrow> (Some e, [])
      | Inr line \<Rightarrow> (fst (write_results f_write rest), line # snd (write_results f_write rest)))"
  by (simp split: sum.splits prod.splits)

lemma write_results_succeed:
  "\<forall>result. \<exists>line. f_write result = Inr line \<Longrightarrow> fst (write_results f_write results) = None"
proof (induction results)
  case Nil
  show ?case by simp
next
  case (Cons result rest)
  from Cons.prems obtain line where "f_write result = Inr line" by blast
  with Cons show ?case by (simp add: write_results_Cons del: write_results.simps(2))
qed

lemma write_results_all:
  "fst (write_results f_write results) = None \<Longrightarrow>
   length (snd (write_results f_write results)) = length results"
  by (induction results)
     (auto simp: write_results_Cons simp del: write_results.simps(2) split: sum.splits)

lemma write_results_stops:
  "k < length results \<Longrightarrow> f_write (results ! k) = Inl e \<Longrightarrow>
   \<forall>j<k. \<exists>line. f_write (results ! j) = Inr line \<Longrightarrow>
   fst (write_results f_write results) = Some e \<and>
   snd (write_results f_write results) = map (\<lambda>result. projr (f_write result)) (take k results)"
proof (induction results arbitrary: k)
  case Nil
  then show ?case by simp
next
  case (Cons result rest)
  show ?case
  proof (cases k)
    case 0
    with Cons.prems show ?thesis by simp
  next
    case (Suc k')
    from Cons.prems(3) Suc obtain line where line: "f_write result = Inr line"
      by (auto dest: spec[of _ 0])
    have later: "\<forall>j<k'. \<exists>line. f_write (rest ! j) = Inr line"
      using Cons.prems(3) Suc by (auto dest: spec[of _ "Suc j" for j])
    have "fst (write_results f_write rest) = Some e \<and>
          snd (write_results f_write rest) = map (\<lambda>result. projr (f_write result)) (take k' rest)"
      using Cons.IH[of k'] Cons.prems(1,2) Suc later by simp
    with line Suc show ?thesis
      by (simp add: write_results_Cons del: write_results.simps(2))
  qed
qed

lemma save_batch_results_succeeds:
  "\<forall>result. \<exists>line. f_write result = Inr line \<Longrightarrow>
   fst (save_batch_results f_write lotes_dir results batch_id stamp) = Inr (batch_filename batch_id stamp)"
  by (simp add: save_batch_results_def Let_def write_results_succeed)

text \<open>
  When no write raises, the file has one line for each case of the batch.
\<close>

lemma batch_file_complete:
  assumes "fst (save_batch_results f_write lotes_dir
                  (process_batch_async gvp cfg loads ws batch_data) batch_id stamp) = Inr filename"
  shows "\<exists>lines.
     snd (save_batch_results f_write lotes_dir
            (process_batch_async gvp cfg loads ws batch_data) batch_id stamp) =
       filter (\<lambda>f. fst f \<noteq> filename) lotes_dir @ [(filename, lines)] \<and>
     length lines = length batch_data"
proof -
  let ?results = "process_batch_async gvp cfg loads ws batch_data"
  from assms have none: "fst (write_results f_write ?results) = None"
    and name: "filename = batch_filename batch_id stamp"
    by (auto simp: save_batch_results_def Let_def split: option.splits)
  have "length (snd (write_results f_write ?results)) = length batch_data"
    using write_results_all[OF none] by (simp add: process_batch_async_def)
  then show ?thesis
    by (simp add: save_batch_results_def Let_def name)
qed

lemma process_batch_async_nth:
  "i < length batch_data \<Longrightarrow>
   process_batch_async gvp cfg loads ws batch_data ! i =
     process_single_case gvp cfg loads (ws i) (batch_data ! i)"
  by (simp add: process_batch_async_def nth_enumerate_eq)

lemma three_results:
  "py_item (process_single_case kb_example cfg3 json_loads w_ok case_A) ''id'' = Inr (JStr ''A'') \<and>
   py_item (process_single_case kb_example cfg3 json_loads w_ok case_B) ''id'' = Inr (JStr ''B'')"
  by code_simp

text \<open>
  Claim C1. The file of a batch does not hold one record per case when a write
  raises, as it does on a record whose reasoning is a lone surrogate, decoded from an
  escape in the answer of the endpoint. Let the write of the result at position \<open>k\<close>
  raise and the writes before succeed. \<^verbatim>\<open>save_batch_results\<close> then raises, and the
  file that it leaves has \<open>k\<close> lines, those of the results before position \<open>k\<close>,
  fewer than the batch has cases: the cases from position \<open>k\<close> on have no record,
  although \<^verbatim>\<open>process_single_case\<close> returned one for each.
\<close>

theorem batch_file_short_of_records:
  assumes "k < length batch_data"
    and "f_write (process_batch_async gvp cfg loads ws batch_data ! k) = Inl e"
    and "\<forall>j<k. \<exists>line. f_write (process_batch_async gvp cfg loads ws batch_data ! j) = Inr line"
  shows "\<exists>lines.
     save_batch_results f_write lotes_dir
       (process_batch_async gvp cfg loads ws batch_data) batch_id stamp =
       (Inl e, filter (\<lambda>f. fst f \<noteq> batch_filename batch_id stamp) lotes_dir @
               [(batch_filename batch_id stamp, lines)]) \<and>
     length lines = k \<and> length lines < length batch_data \<and>
     (\<forall>j<k. f_write (process_batch_async gvp cfg loads ws batch_data ! j) = Inr (lines ! j))"
proof -
  let ?results = "process_batch_async gvp cfg loads ws batch_data"
  let ?lines = "map (\<lambda>result. projr (f_write result)) (take k ?results)"
  have len: "length ?results = length batch_data"
    by (simp add: process_batch_async_def)
  have stops: "fst (write_results f_write ?results) = Some e \<and>
        snd (write_results f_write ?results) = ?lines"
    using write_results_stops[of k ?results f_write e] assms len by simp
  have saved: "save_batch_results f_write lotes_dir ?results batch_id stamp =
       (Inl e, filter (\<lambda>f. fst f \<noteq> batch_filename batch_id stamp) lotes_dir @
               [(batch_filename batch_id stamp, ?lines)])"
    using stops by (simp add: save_batch_results_def Let_def)
  have count: "length ?lines = k \<and> length ?lines < length batch_data"
    using assms(1) len by simp
  have each: "\<forall>j<k. f_write (?results ! j) = Inr (?lines ! j)"
  proof (intro allI impI)
    fix j assume j: "j < k"
    with assms(3) obtain line where "f_write (?results ! j) = Inr line" by blast
    moreover have "?lines ! j = projr (f_write (?results ! j))"
      using j assms(1) len by simp
    ultimately show "f_write (?results ! j) = Inr (?lines ! j)" by simp
  qed
  show ?thesis using saved count each by blast
qed

theorem batch_file_short_of_records_witness:
  "save_batch_results write_fails_on_B []
     (process_batch_async kb_example cfg3 json_loads (\<lambda>i. w_ok) [case_A, case_B, case_C])
     1 ''20250101_0900'' =
     (Inl (Exn ''UnicodeEncodeError'' []),
      [(''resultados_lote_1_20250101_0900.jsonl'',
        [json_dumps (process_single_case kb_example cfg3 json_loads w_ok case_A) @ [CHR 0x0A]])]) \<and>
   length [case_A, case_B, case_C] = 3"
proof -
  let ?results = "process_batch_async kb_example cfg3 json_loads (\<lambda>i. w_ok) [case_A, case_B, case_C]"
  have r0: "?results ! 0 = process_single_case kb_example cfg3 json_loads w_ok case_A"
    using process_batch_async_nth[of 0 "[case_A, case_B, case_C]"] by simp
  have r1: "?results ! 1 = process_single_case kb_example cfg3 json_loads w_ok case_B"
    using process_batch_async_nth[of 1 "[case_A, case_B, case_C]"] by simp
  have h1: "(1::nat) < length [case_A, case_B, case_C]" by simp
  have h2: "write_fails_on_B (?results ! 1) = Inl (Exn ''UnicodeEncodeError'' [])"
    unfolding r1 using three_results by (simp add: write_fails_on_B_def)
  have w0: "write_fails_on_B (?results ! 0) =
      Inr (json_dumps (process_single_case kb_example cfg3 json_loads w_ok case_A) @ [CHR 0x0A])"
    unfolding r0 using three_results by (simp add: write_fails_on_B_def write_line_def)
  have h3: "\<forall>j<1. \<exists>line. write_fails_on_B (?results ! j) = Inr line"
    using w0 by simp
  have name: "batch_filename 1 ''20250101_0900'' = ''resultados_lote_1_20250101_0900.jsonl''"
    by code_simp
  obtain lines where saved:
    "save_batch_results write_fails_on_B [] ?results 1 ''20250101_0900'' =
       (Inl (Exn ''UnicodeEncodeError'' []),
        filter (\<lambda>f. fst f \<noteq> batch_filename 1 ''20250101_0900'') [] @
        [(batch_filename 1 ''20250101_0900'', lines)])"
    and count: "length lines = 1"
    and each: "\<forall>j<1. write_fails_on_B (?results ! j) = Inr (lines ! j)"
    using batch_file_short_of_records[OF h1 h2 h3, of "[]" 1 "''20250101_0900''"] by blast
  from each w0 have
    "lines ! 0 = json_dumps (process_single_case kb_example cfg3 json_loads w_ok case_A) @ [CHR 0x0A]"
    by simp
  with count have
    "lines = [json_dumps (process_single_case kb_example cfg3 json_loads w_ok case_A) @ [CHR 0x0A]]"
    by (cases lines) simp_all
  with saved show ?thesis unfolding name by simp
qed

subsection \<open>The status of a run\<close>

lemma run_batches_completes:
  "interrupt w = None \<Longrightarrow> \<forall>result. \<exists>line. f_write result = Inr line \<Longrightarrow>
   \<exists>lotes_dir'. run_batches cfg loads f_write w data_to_process bsize idxs lotes_dir =
     Inr (True, lotes_dir')"
proof (induction idxs arbitrary: lotes_dir)
  case Nil
  show ?case by simp
next
  case (Cons batch_idx rest)
  show ?case
    using Cons.prems Cons.IH[OF Cons.prems]
    by (simp add: Let_def save_batch_results_succeeds)
qed

lemma try_no_work:
  assumes "knowledge_base w = Inr None \<or> knowledge_base w = Inr (Some (prompts_version cfg))"
    and "load_clean_data loads (clean_file w) = Inr ([], originals)"
  shows "try_validation cfg loads f_write w requested_size auto_confirm lotes_dir = Inr (True, lotes_dir)"
  using assms by (auto simp: try_validation_def)

lemma try_with_work:
  assumes "knowledge_base w = Inr None \<or> knowledge_base w = Inr (Some (prompts_version cfg))"
    and "load_clean_data loads (clean_file w) = Inr (data_to_process, originals)"
    and "data_to_process \<noteq> []"
    and "bsize = (case requested_size of None \<Rightarrow> batch_size cfg
                  | Some b \<Rightarrow> if b \<noteq> 0 then b else batch_size cfg)"
  shows "try_validation cfg loads f_write w requested_size auto_confirm lotes_dir =
     (if bsize = 0 then Inr (False, lotes_dir)
      else if \<not> auto_confirm \<and> lower (answer w) \<in> set [''n'', ''no''] then Inr (False, lotes_dir)
      else if validator_init w \<noteq> None
      then Inr (False, filter (\<lambda>f. \<not> glob_match ''resultados_*.jsonl'' (fst f)) lotes_dir)
      else bindE (run_batches cfg loads f_write w data_to_process bsize
                    [0..<nat ((int (length data_to_process) + bsize - 1) div bsize)]
                    (filter (\<lambda>f. \<not> glob_match ''resultados_*.jsonl'' (fst f)) lotes_dir))
             (\<lambda>finished.
                if \<not> fst finished then Inr (False, snd finished)
                else if elapsed_seconds w = 0 then Inr (False, snd finished)
                else Inr (True, snd finished)))"
proof -
  have b: "(case requested_size of None \<Rightarrow> batch_size cfg
            | Some b \<Rightarrow> if b \<noteq> 0 then b else batch_size cfg) = bsize"
    using assms(4) by simp
  show ?thesis
    using assms(1,2,3)
    unfolding try_validation_def Let_def b
    by (cases "knowledge_base w") auto
qed

lemma try_completed:
  assumes "knowledge_base w = Inr None \<or> knowledge_base w = Inr (Some (prompts_version cfg))"
    and "load_clean_data loads (clean_file w) = Inr (data_to_process, originals)"
    and "data_to_process \<noteq> []"
    and "bsize = (case requested_size of None \<Rightarrow> batch_size cfg
                  | Some b \<Rightarrow> if b \<noteq> 0 then b else batch_size cfg)"
    and "bsize \<noteq> 0"
    and "auto_confirm \<or> lower (answer w) \<notin> set [''n'', ''no'']"
    and "validator_init w = None"
    and "interrupt w = None"
    and "\<forall>result. \<exists>line. f_write result = Inr line"
    and "elapsed_seconds w \<noteq> 0"
  shows "\<exists>lotes_dir'.
     try_validation cfg loads f_write w requested_size auto_confirm lotes_dir = Inr (True, lotes_dir')"
proof -
  obtain d where "run_batches cfg loads f_write w data_to_process bsize
                    [0..<nat ((int (length data_to_process) + bsize - 1) div bsize)]
                    (filter (\<lambda>f. \<not> glob_match ''resultados_*.jsonl'' (fst f)) lotes_dir) =
                  Inr (True, d)"
    using run_batches_completes[OF assms(8,9)] by blast
  then show ?thesis
    unfolding try_with_work[OF assms(1-4)]
    using assms(5,6,7,10) by auto
qed

lemma try_declined:
  assumes "knowledge_base w = Inr None \<or> knowledge_base w = Inr (Some (prompts_version cfg))"
    and "load_clean_data loads (clean_file w) = Inr (data_to_process, originals)"
    and "data_to_process \<noteq> []"
    and "\<not> auto_confirm" and "lower (answer w) \<in> set [''n'', ''no'']"
  shows "try_validation cfg loads f_write w requested_size auto_confirm lotes_dir = Inr (False, lotes_dir)"
  unfolding try_with_work[OF assms(1-3) refl]
  using assms(4,5) by simp

lemma clean_file_one_case: "load_clean_data json_loads (Some [clean_line_A]) = Inr ([case_A], 1)"
  by code_simp

lemma clean_file_empty: "load_clean_data json_loads (Some []) = Inr ([], 0)"
  by code_simp

text \<open>
  An interrupt that comes while the one batch of a run is awaited: the coroutine is
  cancelled and returns no status.
\<close>

lemma run_cancelled_example:
  "run_validation_async run_cfg json_loads write_line
     (w_one_case\<lparr>interrupt := Some (DuringAwait 0)\<rparr>) None True [] =
   Inl (Exn ''CancelledError'' [])"
  by (simp add: run_validation_async_def try_validation_def w_one_case_def run_cfg_def Let_def
        upt_rec clean_file_one_case)

text \<open>
  Claim C9, as amended. Let the key be found, the knowledge base load with the
  expected version and the clean file be read. \<^verbatim>\<open>run_validation_async\<close> returns
  \<open>True\<close> when there is no case to process, and \<open>True\<close> again when every batch was
  processed and written; it returns \<open>False\<close> when the operator declines at the
  prompt. So the status tells a run that the operator declined from a completed one,
  and does not tell a run with no work from a completed one.
\<close>

theorem run_validation_async_status:
  assumes "api_key w = Inr key"
    and "knowledge_base w = Inr None \<or> knowledge_base w = Inr (Some (prompts_version cfg))"
    and "load_clean_data loads (clean_file w) = Inr (data_to_process, originals)"
    and "bsize = (case requested_size of None \<Rightarrow> batch_size cfg
                  | Some b \<Rightarrow> if b \<noteq> 0 then b else batch_size cfg)"
  shows
    "(data_to_process = [] \<longrightarrow>
        run_validation_async cfg loads f_write w requested_size auto_confirm lotes_dir =
          Inr (True, lotes_dir)) \<and>
     (data_to_process \<noteq> [] \<and> bsize \<noteq> 0 \<and>
      (auto_confirm \<or> lower (answer w) \<notin> set [''n'', ''no'']) \<and>
      validator_init w = None \<and> interrupt w = None \<and>
      (\<forall>result. \<exists>line. f_write result = Inr line) \<and> elapsed_seconds w \<noteq> 0 \<longrightarrow>
        (\<exists>lotes_dir'.
           run_validation_async cfg loads f_write w requested_size auto_confirm lotes_dir =
             Inr (True, lotes_dir'))) \<and>
     (data_to_process \<noteq> [] \<and> \<not> auto_confirm \<and> lower (answer w) \<in> set [''n'', ''no''] \<longrightarrow>
        run_validation_async cfg loads f_write w requested_size auto_confirm lotes_dir =
          Inr (False, lotes_dir))"
proof -
  have run: "run_validation_async cfg loads f_write w requested_size auto_confirm lotes_dir =
      try_validation cfg loads f_write w requested_size auto_confirm lotes_dir"
    using assms(1) by (simp add: run_validation_async_def)
  have one: "data_to_process = [] \<longrightarrow>
      try_validation cfg loads f_write w requested_size auto_confirm lotes_dir = Inr (True, lotes_dir)"
    using try_no_work[OF assms(2), of loads originals f_write requested_size auto_confirm lotes_dir]
      assms(3)
    by simp
  have two: "data_to_process \<noteq> [] \<and> bsize \<noteq> 0 \<and>
      (auto_confirm \<or> lower (answer w) \<notin> set [''n'', ''no'']) \<and>
      validator_init w = None \<and> interrupt w = None \<and>
      (\<forall>result. \<exists>line. f_write result = Inr line) \<and> elapsed_seconds w \<noteq> 0 \<longrightarrow>
        (\<exists>lotes_dir'.
           try_validation cfg loads f_write w requested_size auto_confirm lotes_dir =
             Inr (True, lotes_dir'))"
    using try_completed[OF assms(2,3) _ assms(4)] by blast
  have three: "data_to_process \<noteq> [] \<and> \<not> auto_confirm \<and> lower (answer w) \<in> set [''n'', ''no''] \<longrightarrow>
      try_validation cfg loads f_write w requested_size auto_confirm lotes_dir = Inr (False, lotes_dir)"
    using try_declined[OF assms(2,3)] by blast
  show ?thesis unfolding run using one two three by blast
qed

theorem run_validation_async_status_witness:
  "run_validation_async run_cfg json_loads write_line w_no_work None True [] = Inr (True, []) \<and>
   (\<exists>lotes_dir'. run_validation_async run_cfg json_loads write_line w_one_case None True [] =
      Inr (True, lotes_dir')) \<and>
   run_validation_async run_cfg json_loads write_line (w_one_case\<lparr>answer := ''No''\<rparr>) None False [] =
     Inr (False, [])"
proof -
  let ?declined = "w_one_case\<lparr>answer := ''No''\<rparr>"
  have size: "(100::int) = (case None of None \<Rightarrow> batch_size run_cfg
                  | Some b \<Rightarrow> if b \<noteq> 0 then b else batch_size run_cfg)"
    by (simp add: run_cfg_def)
  have writes: "\<forall>result. \<exists>line. write_line result = Inr line"
    by (simp add: write_line_def)
  have n1: "api_key w_no_work = Inr ''sk-00000''" by (simp add: w_no_work_def)
  have n2: "knowledge_base w_no_work = Inr None \<or>
            knowledge_base w_no_work = Inr (Some (prompts_version run_cfg))"
    by (simp add: w_no_work_def)
  have n3: "load_clean_data json_loads (clean_file w_no_work) = Inr ([], 0)"
    using clean_file_empty by (simp add: w_no_work_def)
  have no_work: "run_validation_async run_cfg json_loads write_line w_no_work None True [] =
      Inr (True, [])"
    using run_validation_async_status[OF n1 n2 n3 size, of write_line True "[]"] by blast
  have c1: "api_key w_one_case = Inr ''sk-00000''" by (simp add: w_one_case_def)
  have c2: "knowledge_base w_one_case = Inr None \<or>
            knowledge_base w_one_case = Inr (Some (prompts_version run_cfg))"
    by (simp add: w_one_case_def)
  have c3: "load_clean_data json_loads (clean_file w_one_case) = Inr ([case_A], 1)"
    using clean_file_one_case by (simp add: w_one_case_def)
  have c5: "[case_A] \<noteq> [] \<and> (100::int) \<noteq> 0 \<and>
      (True \<or> lower (answer w_one_case) \<notin> set [''n'', ''no'']) \<and>
      validator_init w_one_case = None \<and> interrupt w_one_case = None \<and>
      (\<forall>result. \<exists>line. write_line result = Inr line) \<and> elapsed_seconds w_one_case \<noteq> 0"
    using writes by (simp add: w_one_case_def)
  have completed: "\<exists>lotes_dir'.
      run_validation_async run_cfg json_loads write_line w_one_case None True [] =
        Inr (True, lotes_dir')"
    using run_validation_async_status[OF c1 c2 c3 size, of write_line True "[]"] c5 by blast
  have d1: "api_key ?declined = Inr ''sk-00000''" by (simp add: w_one_case_def)
  have d2: "knowledge_base ?declined = Inr None \<or>
            knowledge_base ?declined = Inr (Some (prompts_version run_cfg))"
    by (simp add: w_one_case_def)
  have d3: "load_clean_data json_loads (clean_file ?declined) = Inr ([case_A], 1)"
    using clean_file_one_case by (simp add: w_one_case_def)
  have low: "lower (answer ?declined) = ''no''" by code_simp
  have d5: "[case_A] \<noteq> [] \<and> \<not> False \<and> lower (answer ?declined) \<in> set [''n'', ''no'']"
    unfolding low by simp
  have declined: "run_validation_async run_cfg json_loads write_line ?declined None False [] =
      Inr (False, [])"
    using run_validation_async_status[OF d1 d2 d3 size, of write_line False "[]"] d5 by blast
  show ?thesis using no_work completed declined by blast
qed

text \<open>
  The claim as first stated fails: the run with no case and the run that processes
  its one case and writes its batch file return the same status.
\<close>

theorem run_validation_async_status_counterexample:
  "run_validation_async run_cfg json_loads write_line w_no_work None True [] = Inr (True, []) \<and>
   map_sum id fst (run_validation_async run_cfg json_loads write_line w_one_case None True []) =
     Inr True \<and>
   map_sum id (\<lambda>r. map fst (snd r))
     (run_validation_async run_cfg json_loads write_line w_one_case None True []) =
     Inr [''resultados_lote_1_20250101_0900.jsonl'']"
proof -
  have a: "try_validation run_cfg json_loads write_line w_no_work None True [] = Inr (True, [])"
    by (rule try_no_work[where originals = 0]) (simp_all add: w_no_work_def clean_file_empty)
  have c: "map_sum id (\<lambda>r. (fst r, map fst (snd r)))
             (try_validation run_cfg json_loads write_line w_one_case None True []) =
           Inr (True, [''resultados_lote_1_20250101_0900.jsonl''])"
    by (simp add: try_validation_def w_one_case_def run_cfg_def Let_def upt_rec
          clean_file_one_case save_batch_results_def batch_filename_def)
       code_simp
  then obtain r where r: "try_validation run_cfg json_loads write_line w_one_case None True [] = Inr r"
      "fst r = True" "map fst (snd r) = [''resultados_lote_1_20250101_0900.jsonl'']"
    by (cases "try_validation run_cfg json_loads write_line w_one_case None True []") auto
  show ?thesis using a r by (simp add: run_validation_async_def w_no_work_def w_one_case_def)
qed


end
